theory Spec2Isabelle
  imports Complex_Main
begin

section \<open>Values exchanged with the outside world\<close>

text \<open>
  The seeding script and the chat component handle values that come out of
  \<^verbatim>\<open>JSON.parse\<close> or \<^verbatim>\<open>response.json()\<close>: untyped JavaScript values. An object is an
  association list in key order, read with \<^const>\<open>map_of\<close> (an object holds one value
  per key). Numbers are abstracted to reals: the code never computes with them.
\<close>

datatype json =
    JNull
  | JBool bool
  | JNum real
  | JStr string
  | JArr "json list"
  | JObj "(string \<times> json) list"

type_synonym obj = "(string \<times> json) list"

text \<open>
  Exceptions are values. The source never throws by itself: every exception of the
  model is raised by a library call (driver, language model, output parser, embedding
  provider, \<^verbatim>\<open>fetch\<close>) or by the JavaScript runtime.
\<close>

datatype error =
    ConnectError
  | PingError
  | DeleteError
  | ModelError
  | ZodError
  | OutputParserException
  | EmbeddingError
  | WriteError
  | CloseError
  | NetworkError
  | SyntaxError
  | TypeError

definition bindE :: "error + 'a \<Rightarrow> ('a \<Rightarrow> error + 'b) \<Rightarrow> error + 'b" where
  "bindE m f = (case m of Inl e \<Rightarrow> Inl e | Inr x \<Rightarrow> f x)"

section \<open>The schema: \<^verbatim>\<open>FrontendPrincipleSchema\<close>\<close>

text \<open>
  \<^verbatim>\<open>type FrontendPrinciple = z.infer<typeof FrontendPrincipleSchema>\<close>: nine fields, in
  the order of the schema (\<open>notes'\<close> is the field \<^verbatim>\<open>notes\<close>).
\<close>

record FrontendPrinciple =
  principle_id :: string
  name :: string
  description :: string
  keyConcepts :: "string list"
  designGuidelines :: "string list"
  commonPitfalls :: "string list"
  bestPractices :: "string list"
  relevantTechnologies :: "string list"
  notes' :: string

text \<open>
  \<^verbatim>\<open>z.string()\<close> accepts a JavaScript string and nothing else; there is no coercion.
\<close>

fun z_string :: "json \<Rightarrow> error + string" where
  "z_string (JStr s) = Inr s"
| "z_string _ = Inl ZodError"

text \<open>
  \<^verbatim>\<open>z.array(elem)\<close> accepts an array all of whose elements \<^verbatim>\<open>elem\<close> accepts, and
  returns the parsed elements in order; one rejected element rejects the array.
\<close>

fun collect :: "(error + 'a) list \<Rightarrow> error + 'a list" where
  "collect [] = Inr []"
| "collect (Inl e # rs) = Inl e"
| "collect (Inr x # rs) = (case collect rs of Inl e \<Rightarrow> Inl e | Inr xs \<Rightarrow> Inr (x # xs))"

fun z_array :: "(json \<Rightarrow> error + 'a) \<Rightarrow> json \<Rightarrow> error + 'a list" where
  "z_array elem (JArr xs) = collect (map elem xs)"
| "z_array elem _ = Inl ZodError"

text \<open>
  A field of \<^verbatim>\<open>z.object({...})\<close>: the key is read from the candidate; a missing key
  reads as \<^verbatim>\<open>undefined\<close>, which no field schema here accepts.
\<close>

definition field :: "obj \<Rightarrow> string \<Rightarrow> (json \<Rightarrow> error + 'a) \<Rightarrow> error + 'a" where
  "field kvs k sch = (case map_of kvs k of None \<Rightarrow> Inl ZodError | Some v \<Rightarrow> sch v)"

text \<open>
  \<^verbatim>\<open>const FrontendPrincipleSchema = z.object({ principle_id: z.string(), ... })\<close>.
  The candidate must be an object (not \<^verbatim>\<open>null\<close>, not an array). The result is built
  from the nine keys of the shape: \<^verbatim>\<open>z.object\<close> is not \<^verbatim>\<open>.strict()\<close> and not
  \<^verbatim>\<open>.passthrough()\<close>, so any other key of the candidate is left out of the result.
\<close>

fun FrontendPrincipleSchema :: "json \<Rightarrow> error + FrontendPrinciple" where
  "FrontendPrincipleSchema (JObj kvs) =
     bindE (field kvs ''principle_id'' z_string) (\<lambda>pid.
     bindE (field kvs ''name'' z_string) (\<lambda>nm.
     bindE (field kvs ''description'' z_string) (\<lambda>ds.
     bindE (field kvs ''keyConcepts'' (z_array z_string)) (\<lambda>kc.
     bindE (field kvs ''designGuidelines'' (z_array z_string)) (\<lambda>dg.
     bindE (field kvs ''commonPitfalls'' (z_array z_string)) (\<lambda>cp.
     bindE (field kvs ''bestPractices'' (z_array z_string)) (\<lambda>bp.
     bindE (field kvs ''relevantTechnologies'' (z_array z_string)) (\<lambda>rt.
     bindE (field kvs ''notes'' z_string) (\<lambda>nt.
       Inr \<lparr> principle_id = pid, name = nm, description = ds, keyConcepts = kc,
             designGuidelines = dg, commonPitfalls = cp, bestPractices = bp,
             relevantTechnologies = rt, notes' = nt \<rparr>)))))))))"
| "FrontendPrincipleSchema _ = Inl ZodError"

text \<open>
  The parsed record as a JavaScript object again, keys in schema order: what
  \<^verbatim>\<open>{ ...record }\<close> copies into \<^verbatim>\<open>metadata\<close>.
\<close>

definition strs :: "string list \<Rightarrow> json" where
  "strs xs = JArr (map JStr xs)"

definition object_of :: "FrontendPrinciple \<Rightarrow> obj" where
  "object_of r =
     [(''principle_id'', JStr (principle_id r)),
      (''name'', JStr (name r)),
      (''description'', JStr (description r)),
      (''keyConcepts'', strs (keyConcepts r)),
      (''designGuidelines'', strs (designGuidelines r)),
      (''commonPitfalls'', strs (commonPitfalls r)),
      (''bestPractices'', strs (bestPractices r)),
      (''relevantTechnologies'', strs (relevantTechnologies r)),
      (''notes'', JStr (notes' r))]"

definition schema_keys :: "string list" where
  "schema_keys = [''principle_id'', ''name'', ''description'', ''keyConcepts'',
     ''designGuidelines'', ''commonPitfalls'', ''bestPractices'',
     ''relevantTechnologies'', ''notes'']"

section \<open>The summary: \<^verbatim>\<open>createFrontendPrincipleSummary\<close>\<close>

text \<open>
  \<^verbatim>\<open>Array.prototype.join\<close> on an array of strings: the separator stands between
  consecutive items; the empty array gives the empty string.
\<close>

fun join :: "string \<Rightarrow> string list \<Rightarrow> string" where
  "join sep [] = []"
| "join sep [x] = x"
| "join sep (x # y # ys) = x @ sep @ join sep (y # ys)"

text \<open>
  The promise of \<^verbatim>\<open>createFrontendPrincipleSummary\<close> always resolves, with the value of
  the template literal \<^verbatim>\<open>summary\<close>; the model is that value.
\<close>

definition createFrontendPrincipleSummary :: "FrontendPrinciple \<Rightarrow> string" where
  "createFrontendPrincipleSummary principle =
     (let basics = name principle @ '' ('' @ principle_id principle @ ''): '' @ description principle;
          concepts = ''Key Concepts: '' @ join '', '' (keyConcepts principle);
          guidelines = ''Design Guidelines: '' @ join '', '' (designGuidelines principle);
          pitfalls = ''Common Pitfalls: '' @ join '', '' (commonPitfalls principle);
          practices = ''Best Practices: '' @ join '', '' (bestPractices principle);
          technologies = ''Technologies: '' @ join '', '' (relevantTechnologies principle)
      in basics @ ''. '' @ concepts @ ''. '' @ guidelines @ ''. '' @ pitfalls @ ''. ''
           @ practices @ ''. '' @ technologies @ ''. Notes: '' @ notes' principle)"

section \<open>The seeding run: \<^verbatim>\<open>seedDatabase\<close>\<close>

text \<open>
  What the outside world answers during one run. \<^verbatim>\<open>client.connect()\<close>, the ping,
  \<^verbatim>\<open>collection.deleteMany({})\<close> and \<^verbatim>\<open>client.close()\<close> either complete or throw
  (\<open>Some e\<close>); a \<^verbatim>\<open>deleteMany\<close> that throws is taken to delete nothing, an insert that
  throws to insert nothing. \<open>json_parse\<close> is the output parser's extraction of the JSON
  text followed by \<^verbatim>\<open>JSON.parse\<close> (\<open>None\<close>: a syntax error). \<open>embedDocuments\<close> is the
  embedding capability on one text and \<open>collection_insertMany\<close> the store's insert of
  one document. Their first argument is the number of the call within the run, counted
  from 0: the provider and the store may answer the same input differently at different
  calls (a call that fails once need not fail again).
\<close>

record env =
  client_connect :: "error option"
  admin_ping :: "error option"
  collection_deleteMany :: "error option"
  getFormatInstructions :: string
  llm_invoke :: "string \<Rightarrow> error + string"
  json_parse :: "string \<Rightarrow> json option"
  embedDocuments :: "nat \<Rightarrow> string \<Rightarrow> error + real list"
  collection_insertMany :: "nat \<Rightarrow> obj \<Rightarrow> error option"
  client_close :: "error option"

text \<open>
  The effects of a run, in the order in which the code attempts them. A call is recorded
  when it is made, whether it then completes or throws.
\<close>

datatype event =
    Connect
  | Ping
  | DeleteMany
  | Invoke string
  | Embed string
  | InsertMany obj
  | Close
  | ConsoleLog string
  | ConsoleLogId string string
  | ConsoleError string error

text \<open>
  The store and the process: the documents of \<^verbatim>\<open>frontend_db.principles\<close> in insertion
  order, whether the client holds a connection, and the effects so far. (The \<^verbatim>\<open>_id\<close>
  the store adds to an inserted document is left out.)
\<close>

record state =
  collection :: "obj list"
  connected :: bool
  trace :: "event list"

definition emit :: "event \<Rightarrow> state \<Rightarrow> state" where
  "emit ev s = s\<lparr>trace := trace s @ [ev]\<rparr>"

definition prompt :: "string \<Rightarrow> string" where
  "prompt formatInstructions =
     ''You are a helpful assistant that generates data about frontend design principles. ''
     @ ''Generate 10 fictional records of frontend principles. ''
     @ ''Each record should include the following fields: principle_id, name, description, ''
     @ ''keyConcepts, designGuidelines, commonPitfalls, bestPractices, relevantTechnologies, ''
     @ ''and notes. Ensure variety in the data and realistic values.''
     @ [CHR 0x0A, CHR 0x0A] @ formatInstructions"

text \<open>
  \<^verbatim>\<open>parser = StructuredOutputParser.fromZodSchema(z.array(FrontendPrincipleSchema))\<close>;
  \<^verbatim>\<open>parser.parse(text)\<close> parses the text as JSON and runs the schema on the value. Whatever
  goes wrong inside, it throws one \<^verbatim>\<open>OutputParserException\<close>.
\<close>

definition parser_parse :: "env \<Rightarrow> string \<Rightarrow> error + FrontendPrinciple list" where
  "parser_parse env txt =
     (case json_parse env txt of
        None \<Rightarrow> Inl OutputParserException
      | Some j \<Rightarrow>
          (case z_array FrontendPrincipleSchema j of
             Inl e \<Rightarrow> Inl OutputParserException
           | Inr rs \<Rightarrow> Inr rs))"

definition generateSyntheticData :: "env \<Rightarrow> state \<Rightarrow> (error + FrontendPrinciple list) \<times> state" where
  "generateSyntheticData env s =
     (let p = prompt (getFormatInstructions env);
          s1 = emit (ConsoleLog ''Generating synthetic frontend principles data...'') s;
          s2 = emit (Invoke p) s1
      in case llm_invoke env p of
           Inl e \<Rightarrow> (Inl e, s2)
         | Inr content \<Rightarrow> (parser_parse env content, s2))"

text \<open>
  The elements of \<^verbatim>\<open>recordsWithSummaries\<close>:
  \<^verbatim>\<open>{ pageContent: await createFrontendPrincipleSummary(record), metadata: { ...record } }\<close>.
\<close>

record lc_document =
  pageContent :: string
  metadata :: FrontendPrinciple

definition with_summary :: "FrontendPrinciple \<Rightarrow> lc_document" where
  "with_summary r = \<lparr> pageContent = createFrontendPrincipleSummary r, metadata = r \<rparr>"

text \<open>
  Object spread \<^verbatim>\<open>{ ...base, ...m }\<close>: a key of \<open>m\<close> that \<open>base\<close> has already takes the
  place of the old value, a new key goes last.
\<close>

fun obj_set :: "string \<Rightarrow> json \<Rightarrow> obj \<Rightarrow> obj" where
  "obj_set k v [] = [(k, v)]"
| "obj_set k v ((k', v') # kvs) =
     (if k = k' then (k, v) # kvs else (k', v') # obj_set k v kvs)"

definition spread :: "obj \<Rightarrow> obj \<Rightarrow> obj" where
  "spread base m = foldl (\<lambda>acc (k, v). obj_set k v acc) base m"

text \<open>
  \<^verbatim>\<open>MongoDBAtlasVectorSearch.fromDocuments([record], new OpenAIEmbeddings(), { collection,
  indexName: "vector_index", textKey: "embedding_text", embeddingKey: "embedding" })\<close>
  embeds the page content of the one document and inserts
  \<^verbatim>\<open>{ [textKey]: pageContent, [embeddingKey]: vector, ...metadata }\<close> into the collection.
\<close>

definition textKey :: string where
  "textKey = ''embedding_text''"

definition embeddingKey :: string where
  "embeddingKey = ''embedding''"

definition vector_json :: "real list \<Rightarrow> json" where
  "vector_json v = JArr (map JNum v)"

definition stored_document :: "lc_document \<Rightarrow> real list \<Rightarrow> obj" where
  "stored_document d v =
     spread [(textKey, JStr (pageContent d)), (embeddingKey, vector_json v)]
       (object_of (metadata d))"

definition fromDocuments :: "env \<Rightarrow> nat \<Rightarrow> lc_document \<Rightarrow> state \<Rightarrow> error option \<times> state" where
  "fromDocuments env i d s =
     (let s1 = emit (Embed (pageContent d)) s
      in case embedDocuments env i (pageContent d) of
           Inl e \<Rightarrow> (Some e, s1)
         | Inr v \<Rightarrow>
             (let doc = stored_document d v;
                  s2 = emit (InsertMany doc) s1
              in case collection_insertMany env i doc of
                   Some e \<Rightarrow> (Some e, s2)
                 | None \<Rightarrow> (None, s2\<lparr>collection := collection s2 @ [doc]\<rparr>)))"

text \<open>
  \<^verbatim>\<open>for (const record of recordsWithSummaries) { await fromDocuments(...); console.log(...) }\<close>.
  There is no handler inside the loop: an exception of \<^verbatim>\<open>fromDocuments\<close> leaves the loop.
  The loop makes one embedding call and at most one insert per record, so the record at
  position \<open>i\<close> of the batch is served by call number \<open>i\<close> of either capability.
\<close>

fun write_loop :: "env \<Rightarrow> nat \<Rightarrow> lc_document list \<Rightarrow> state \<Rightarrow> error option \<times> state" where
  "write_loop env i [] s = (None, s)"
| "write_loop env i (d # ds) s =
     (case fromDocuments env i d s of
        (Some e, s1) \<Rightarrow> (Some e, s1)
      | (None, s1) \<Rightarrow>
          write_loop env (Suc i) ds
            (emit (ConsoleLogId ''Successfully processed & saved record:''
                     (principle_id (metadata d))) s1))"

text \<open>The \<^verbatim>\<open>try\<close> block of \<^verbatim>\<open>seedDatabase\<close>: the exception that leaves it, if any.\<close>

definition try_block :: "env \<Rightarrow> state \<Rightarrow> error option \<times> state" where
  "try_block env s =
     (let s1 = emit Connect s
      in case client_connect env of
           Some e \<Rightarrow> (Some e, s1)
         | None \<Rightarrow>
      (let s2 = emit Ping (s1\<lparr>connected := True\<rparr>)
       in case admin_ping env of
            Some e \<Rightarrow> (Some e, s2)
          | None \<Rightarrow>
      (let s3 = emit (ConsoleLog ''Pinged your deployment. You successfully connected to MongoDB!'') s2;
           s4 = emit DeleteMany s3
       in case collection_deleteMany env of
            Some e \<Rightarrow> (Some e, s4)
          | None \<Rightarrow>
      (case generateSyntheticData env (s4\<lparr>collection := []\<rparr>) of
         (Inl e, s5) \<Rightarrow> (Some e, s5)
       | (Inr syntheticData, s5) \<Rightarrow>
      (case write_loop env 0 (map with_summary syntheticData) s5 of
         (Some e, s6) \<Rightarrow> (Some e, s6)
       | (None, s6) \<Rightarrow> (None, emit (ConsoleLog ''Database seeding completed'') s6))))))"

text \<open>
  \<^verbatim>\<open>try { ... } catch (error) { console.error(...) } finally { await client.close() }\<close>.
  The result is \<open>Inr ()\<close> when the promise of \<^verbatim>\<open>seedDatabase\<close> resolves and \<open>Inl e\<close> when
  it rejects, which only an exception of \<^verbatim>\<open>client.close()\<close> can cause.
\<close>

definition seedDatabase :: "env \<Rightarrow> state \<Rightarrow> (error + unit) \<times> state" where
  "seedDatabase env s =
     (let (r, s1) = try_block env s;
          s2 = (case r of
                  Some e \<Rightarrow> emit (ConsoleError ''Error seeding database:'' e) s1
                | None \<Rightarrow> s1);
          s3 = emit Close s2
      in case client_close env of
           Some e \<Rightarrow> (Inl e, s3)
         | None \<Rightarrow> (Inr (), s3\<lparr>connected := False\<rparr>))"

section \<open>The chat component: \<^verbatim>\<open>sendMessage\<close>\<close>

datatype sender = User | Agent

text \<open>
  \<^verbatim>\<open>text\<close> is declared a string, but the agent's message takes \<^verbatim>\<open>data.response\<close> as it
  comes: \<open>None\<close> is \<^verbatim>\<open>undefined\<close>. Likewise \<^verbatim>\<open>threadId\<close> holds whatever \<^verbatim>\<open>data.threadId\<close>
  was; \<open>None\<close> is the initial \<^verbatim>\<open>null\<close>.
\<close>

record ChatMessage =
  sender :: sender
  text' :: "json option"

record chat_state =
  messages :: "ChatMessage list"
  input' :: string
  threadId :: "json option"
  isLoading :: bool

text \<open>
  \<^verbatim>\<open>fetch\<close> rejects when the request fails on the network; otherwise it resolves with a
  response of any status. The second component is what \<^verbatim>\<open>response.json()\<close> gives:
  \<open>None\<close> when the body is not JSON and the call throws.
\<close>

datatype fetch_result = Rejected | Response nat "json option"

record chat_env =
  VITE_API_URL :: "string option"
  fetch :: "string \<Rightarrow> string \<Rightarrow> fetch_result"
  js_String :: "json \<Rightarrow> string"

text \<open>
  \<^verbatim>\<open>String.prototype.trim\<close>. A string is held as its UTF-8 bytes, so a character is a
  lead byte with the continuation bytes (\<open>10xxxxxx\<close>) that follow it. \<^verbatim>\<open>trim\<close> removes,
  at both ends, the white space and line terminator characters of ECMAScript: U+0009 to
  U+000D, U+0020, U+00A0, U+1680, U+2000 to U+200A, U+2028, U+2029, U+202F, U+205F,
  U+3000 and U+FEFF.
\<close>

fun is_continuation :: "char \<Rightarrow> bool" where
  "is_continuation (Char b0 b1 b2 b3 b4 b5 b6 b7) = (b7 \<and> \<not> b6)"

definition utf8_chars :: "string \<Rightarrow> string list" where
  "utf8_chars s =
     (case foldr (\<lambda>c (pending, chars).
                    if is_continuation c then (c # pending, chars)
                    else ([], (c # pending) # chars)) s ([], []) of
        (pending, chars) \<Rightarrow> if pending = [] then chars else pending # chars)"

definition white_space :: "string list" where
  "white_space =
     [[CHR 0x09], [CHR 0x0A], [CHR 0x0B], [CHR 0x0C], [CHR 0x0D], [CHR 0x20],
      [CHR 0xC2, CHR 0xA0],
      [CHR 0xE1, CHR 0x9A, CHR 0x80],
      [CHR 0xE2, CHR 0x80, CHR 0x80], [CHR 0xE2, CHR 0x80, CHR 0x81],
      [CHR 0xE2, CHR 0x80, CHR 0x82], [CHR 0xE2, CHR 0x80, CHR 0x83],
      [CHR 0xE2, CHR 0x80, CHR 0x84], [CHR 0xE2, CHR 0x80, CHR 0x85],
      [CHR 0xE2, CHR 0x80, CHR 0x86], [CHR 0xE2, CHR 0x80, CHR 0x87],
      [CHR 0xE2, CHR 0x80, CHR 0x88], [CHR 0xE2, CHR 0x80, CHR 0x89],
      [CHR 0xE2, CHR 0x80, CHR 0x8A],
      [CHR 0xE2, CHR 0x80, CHR 0xA8], [CHR 0xE2, CHR 0x80, CHR 0xA9],
      [CHR 0xE2, CHR 0x80, CHR 0xAF],
      [CHR 0xE2, CHR 0x81, CHR 0x9F],
      [CHR 0xE3, CHR 0x80, CHR 0x80],
      [CHR 0xEF, CHR 0xBB, CHR 0xBF]]"

definition is_space :: "string \<Rightarrow> bool" where
  "is_space ch = (ch \<in> set white_space)"

definition trim :: "string \<Rightarrow> string" where
  "trim s = concat (rev (dropWhile is_space (rev (dropWhile is_space (utf8_chars s)))))"

text \<open>JavaScript truthiness of a value that may be \<^verbatim>\<open>undefined\<close>.\<close>

fun truthy :: "json option \<Rightarrow> bool" where
  "truthy None = False"
| "truthy (Some JNull) = False"
| "truthy (Some (JBool b)) = b"
| "truthy (Some (JNum x)) = (x \<noteq> 0)"
| "truthy (Some (JStr s)) = (s \<noteq> [])"
| "truthy (Some (JArr xs)) = True"
| "truthy (Some (JObj kvs)) = True"

text \<open>
  Reading the property \<^verbatim>\<open>threadId\<close> or \<^verbatim>\<open>response\<close> of the parsed body: \<^verbatim>\<open>null\<close> has no
  properties and the read throws; an object gives the value of the key or \<^verbatim>\<open>undefined\<close>;
  any other value gives \<^verbatim>\<open>undefined\<close>.
\<close>

fun get_prop :: "json \<Rightarrow> string \<Rightarrow> error + json option" where
  "get_prop JNull k = Inl TypeError"
| "get_prop (JObj kvs) k = Inr (map_of kvs k)"
| "get_prop _ k = Inr None"

definition baseUrl :: "chat_env \<Rightarrow> string" where
  "baseUrl env =
     (case VITE_API_URL env of
        None \<Rightarrow> ''http://localhost:3000''
      | Some u \<Rightarrow> if u = [] then ''http://localhost:3000'' else u)"

definition template :: "chat_env \<Rightarrow> json \<Rightarrow> string" where
  "template env j = (case j of JStr s \<Rightarrow> s | _ \<Rightarrow> js_String env j)"

definition url :: "chat_env \<Rightarrow> json option \<Rightarrow> string" where
  "url env tid =
     (if truthy tid then baseUrl env @ ''/chat/'' @ template env (the tid)
      else baseUrl env @ ''/chat'')"

text \<open>
  The statements of the \<^verbatim>\<open>try\<close> block after \<^verbatim>\<open>data\<close> has been read:
  \<^verbatim>\<open>if (!threadId && data.threadId) setThreadId(data.threadId)\<close>, where \<^verbatim>\<open>data.threadId\<close>
  is read only when no thread is set, and the call of \<^verbatim>\<open>setMessages\<close>, which hands over
  an updater and reads nothing. An exception here is caught by the \<^verbatim>\<open>catch\<close> block.
\<close>

definition on_data :: "json \<Rightarrow> chat_state \<Rightarrow> error + chat_state" where
  "on_data data st =
     (if truthy (threadId st) then Inr st
      else bindE (get_prop data ''threadId'') (\<lambda>t.
             Inr (if truthy t then st\<lparr>threadId := t\<rparr> else st)))"

text \<open>
  The updater \<^verbatim>\<open>(prev) => [...prev, { sender: "agent", text: data.response }]\<close>. It reads
  \<^verbatim>\<open>data.response\<close> when the component is rendered again, after the handler has left its
  \<^verbatim>\<open>try\<close> block: an exception of the read is not caught by the handler.
\<close>

definition agent_update :: "json \<Rightarrow> ChatMessage list \<Rightarrow> error + ChatMessage list" where
  "agent_update data prev =
     bindE (get_prop data ''response'') (\<lambda>r. Inr (prev @ [\<lparr>sender = Agent, text' = r\<rparr>]))"

definition on_error :: "chat_state \<Rightarrow> chat_state" where
  "on_error st =
     st\<lparr>messages := messages st
          @ [\<lparr>sender = Agent, text' = Some (JStr ''Sorry, there was an error.'')\<rparr>]\<rparr>"

text \<open>
  One call of the handler and the rendering that follows it. \<open>Inr\<close> is the state the
  component then shows; \<open>Inl e\<close> is an exception thrown while rendering, which nothing
  catches: the session is lost.
\<close>

definition sendMessage :: "chat_env \<Rightarrow> chat_state \<Rightarrow> error + chat_state" where
  "sendMessage env st =
     (let trimmedMessage = trim (input' st)
      in if trimmedMessage = [] then Inr st
         else
           (let st1 = st\<lparr>messages := messages st
                          @ [\<lparr>sender = User, text' = Some (JStr trimmedMessage)\<rparr>],
                        input' := [], isLoading := True\<rparr>
            in case fetch env (url env (threadId st)) trimmedMessage of
                 Rejected \<Rightarrow> Inr ((on_error st1)\<lparr>isLoading := False\<rparr>)
               | Response status body \<Rightarrow>
                   (case body of
                      None \<Rightarrow> Inr ((on_error st1)\<lparr>isLoading := False\<rparr>)
                    | Some data \<Rightarrow>
                        (case on_data data st1 of
                           Inl e \<Rightarrow> Inr ((on_error st1)\<lparr>isLoading := False\<rparr>)
                         | Inr st2 \<Rightarrow>
                             (case agent_update data (messages st2) of
                                Inl e \<Rightarrow> Inl e
                              | Inr ms \<Rightarrow> Inr (st2\<lparr>messages := ms, isLoading := False\<rparr>))))))"

section \<open>Notions used to state the properties\<close>

text \<open>
  The summary as the specification words it: name, id and description, then each list
  field as its label followed by its comma-joined items, in the fixed order of the five
  list fields, then the notes.
\<close>

definition comma_joined :: "string list \<Rightarrow> string" where
  "comma_joined items =
     (case items of [] \<Rightarrow> [] | x # rest \<Rightarrow> x @ concat (map (\<lambda>y. '', '' @ y) rest))"

definition list_fields :: "FrontendPrinciple \<Rightarrow> (string \<times> string list) list" where
  "list_fields r =
     [(''Key Concepts'', keyConcepts r),
      (''Design Guidelines'', designGuidelines r),
      (''Common Pitfalls'', commonPitfalls r),
      (''Best Practices'', bestPractices r),
      (''Technologies'', relevantTechnologies r)]"

definition summarize_spec :: "FrontendPrinciple \<Rightarrow> string" where
  "summarize_spec r =
     name r @ '' ('' @ principle_id r @ ''): '' @ description r
     @ concat (map (\<lambda>(label, items). ''. '' @ label @ '': '' @ comma_joined items) (list_fields r))
     @ ''. Notes: '' @ notes' r"

text \<open>The record of the specification's end-to-end example.\<close>

definition example_record :: FrontendPrinciple where
  "example_record =
     \<lparr> principle_id = ''p1'', name = ''Consistency'', description = ''...'',
       keyConcepts = [''A'', ''B''], designGuidelines = [''G1''], commonPitfalls = [],
       bestPractices = [''BP1''], relevantTechnologies = [''Tech1''], notes' = ''n'' \<rparr>"

text \<open>
  What \<^const>\<open>generateSyntheticData\<close> returns, without the effects: the model's answer to
  the prompt, parsed.
\<close>

definition generation :: "env \<Rightarrow> error + FrontendPrinciple list" where
  "generation env = bindE (llm_invoke env (prompt (getFormatInstructions env))) (parser_parse env)"

text \<open>
  The outcome of the embed-and-write step on the record at position \<open>i\<close> of the batch:
  the exception of the embedding call or of the insert, or the document that is inserted.
\<close>

definition embed_and_write :: "env \<Rightarrow> nat \<Rightarrow> FrontendPrinciple \<Rightarrow> error + obj" where
  "embed_and_write env i r =
     (case embedDocuments env i (createFrontendPrincipleSummary r) of
        Inl e \<Rightarrow> Inl e
      | Inr v \<Rightarrow>
          (case collection_insertMany env i (stored_document (with_summary r) v) of
             Some e \<Rightarrow> Inl e
           | None \<Rightarrow> Inr (stored_document (with_summary r) v)))"

definition step_ok :: "env \<Rightarrow> nat \<Rightarrow> FrontendPrinciple \<Rightarrow> bool" where
  "step_ok env i r = (case embed_and_write env i r of Inl e \<Rightarrow> False | Inr d \<Rightarrow> True)"

definition document_of :: "env \<Rightarrow> nat \<Rightarrow> FrontendPrinciple \<Rightarrow> obj" where
  "document_of env i r = (case embed_and_write env i r of Inl e \<Rightarrow> [] | Inr d \<Rightarrow> d)"

text \<open>
  The documents of the records before the first record whose step fails; the batch
  starts at position \<open>n\<close> (0 for a whole run).
\<close>

definition written_from :: "env \<Rightarrow> nat \<Rightarrow> FrontendPrinciple list \<Rightarrow> obj list" where
  "written_from env n rs =
     map (\<lambda>(i, r). document_of env i r) (takeWhile (\<lambda>(i, r). step_ok env i r) (enumerate n rs))"

definition written :: "env \<Rightarrow> FrontendPrinciple list \<Rightarrow> obj list" where
  "written env rs = written_from env 0 rs"

text \<open>The documents of a list of records whose steps all succeed.\<close>

definition documents :: "env \<Rightarrow> FrontendPrinciple list \<Rightarrow> obj list" where
  "documents env rs = map (\<lambda>(i, r). document_of env i r) (enumerate 0 rs)"

text \<open>The exception of the first failing step, if a step fails.\<close>

definition first_failure_from :: "env \<Rightarrow> nat \<Rightarrow> FrontendPrinciple list \<Rightarrow> error option" where
  "first_failure_from env n rs =
     (case dropWhile (\<lambda>(i, r). step_ok env i r) (enumerate n rs) of
        [] \<Rightarrow> None
      | (i, r) # rest \<Rightarrow> (case embed_and_write env i r of Inl e \<Rightarrow> Some e | Inr d \<Rightarrow> None))"

definition first_failure :: "env \<Rightarrow> FrontendPrinciple list \<Rightarrow> error option" where
  "first_failure env rs = first_failure_from env 0 rs"

text \<open>
  The calls a trace holds: the texts given to the embedding capability, the documents
  given to the store's insert, the prompts given to the model, each in call order.
\<close>

fun embed_calls :: "event list \<Rightarrow> string list" where
  "embed_calls [] = []"
| "embed_calls (Embed t # evs) = t # embed_calls evs"
| "embed_calls (ev # evs) = embed_calls evs"

fun insert_calls :: "event list \<Rightarrow> obj list" where
  "insert_calls [] = []"
| "insert_calls (InsertMany d # evs) = d # insert_calls evs"
| "insert_calls (ev # evs) = insert_calls evs"

fun invoke_calls :: "event list \<Rightarrow> string list" where
  "invoke_calls [] = []"
| "invoke_calls (Invoke p # evs) = p # invoke_calls evs"
| "invoke_calls (ev # evs) = invoke_calls evs"

text \<open>
  The calls the loop makes on a batch that starts at position \<open>n\<close>: it embeds the
  summary of each record up to and including the first whose step fails, and inserts the
  document of each of these whose embedding succeeded.
\<close>

fun loop_embeds :: "env \<Rightarrow> nat \<Rightarrow> FrontendPrinciple list \<Rightarrow> string list" where
  "loop_embeds env n [] = []"
| "loop_embeds env n (r # rs) =
     createFrontendPrincipleSummary r # (if step_ok env n r then loop_embeds env (Suc n) rs else [])"

fun loop_inserts :: "env \<Rightarrow> nat \<Rightarrow> FrontendPrinciple list \<Rightarrow> obj list" where
  "loop_inserts env n [] = []"
| "loop_inserts env n (r # rs) =
     (case embedDocuments env n (createFrontendPrincipleSummary r) of
        Inl e \<Rightarrow> []
      | Inr v \<Rightarrow>
          stored_document (with_summary r) v
          # (if step_ok env n r then loop_inserts env (Suc n) rs else []))"

text \<open>The errors written with \<^verbatim>\<open>console.error\<close>, and the number of \<^verbatim>\<open>client.close()\<close> calls.\<close>

fun errors_logged :: "event list \<Rightarrow> error list" where
  "errors_logged [] = []"
| "errors_logged (ConsoleError msg e # evs) = e # errors_logged evs"
| "errors_logged (ev # evs) = errors_logged evs"


text \<open>The store reached and cleared: connect, ping and \<^verbatim>\<open>deleteMany\<close> all complete.\<close>

definition cleared :: "env \<Rightarrow> bool" where
  "cleared env =
     (client_connect env = None \<and> admin_ping env = None \<and> collection_deleteMany env = None)"

text \<open>The exception that leaves the \<^verbatim>\<open>try\<close> block of a run, if one does.\<close>

definition run_failure :: "env \<Rightarrow> error option" where
  "run_failure env =
     (case client_connect env of Some e \<Rightarrow> Some e | None \<Rightarrow>
     (case admin_ping env of Some e \<Rightarrow> Some e | None \<Rightarrow>
     (case collection_deleteMany env of Some e \<Rightarrow> Some e | None \<Rightarrow>
     (case generation env of Inl e \<Rightarrow> Some e | Inr rs \<Rightarrow> first_failure env rs))))"

text \<open>
  The record schema as the specification words it: the candidate is an object in which
  each of the four text fields is present and a string, and each of the five list fields
  is present and an array of strings.
\<close>

fun is_str :: "json option \<Rightarrow> bool" where
  "is_str (Some (JStr s)) = True"
| "is_str _ = False"

fun is_JStr :: "json \<Rightarrow> bool" where
  "is_JStr (JStr s) = True"
| "is_JStr _ = False"

fun is_strs :: "json option \<Rightarrow> bool" where
  "is_strs (Some (JArr xs)) = list_all is_JStr xs"
| "is_strs _ = False"

fun conforms :: "json \<Rightarrow> bool" where
  "conforms (JObj kvs) =
     (is_str (map_of kvs ''principle_id'') \<and> is_str (map_of kvs ''name'') \<and>
      is_str (map_of kvs ''description'') \<and> is_strs (map_of kvs ''keyConcepts'') \<and>
      is_strs (map_of kvs ''designGuidelines'') \<and> is_strs (map_of kvs ''commonPitfalls'') \<and>
      is_strs (map_of kvs ''bestPractices'') \<and> is_strs (map_of kvs ''relevantTechnologies'') \<and>
      is_str (map_of kvs ''notes''))"
| "conforms _ = False"

fun members :: "json \<Rightarrow> string \<rightharpoonup> json" where
  "members (JObj kvs) = map_of kvs"
| "members _ = Map.empty"

definition valid :: "json \<Rightarrow> bool" where
  "valid j = (case FrontendPrincipleSchema j of Inl e \<Rightarrow> False | Inr r \<Rightarrow> True)"

text \<open>A batch the parser accepts: an array all of whose elements pass the record schema.\<close>

fun valid_batch :: "json \<Rightarrow> bool" where
  "valid_batch (JArr js) = list_all valid js"
| "valid_batch _ = False"

text \<open>The string, and the strings, that a well-typed member holds.\<close>

fun the_str :: "json option \<Rightarrow> string" where
  "the_str (Some (JStr s)) = s"
| "the_str _ = []"

fun the_JStr :: "json \<Rightarrow> string" where
  "the_JStr (JStr s) = s"
| "the_JStr _ = []"

fun the_strs :: "json option \<Rightarrow> string list" where
  "the_strs (Some (JArr xs)) = map the_JStr xs"
| "the_strs _ = []"

text \<open>
  The pairing of the document stored by call number \<open>i\<close>: its text is the summary of
  the record it carries, and its vector is what the embedding capability returned at
  that call on that text.
\<close>

definition stored_text :: "obj \<Rightarrow> string option" where
  "stored_text d = (case map_of d textKey of Some (JStr t) \<Rightarrow> Some t | _ \<Rightarrow> None)"

definition stored_vector :: "obj \<Rightarrow> json option" where
  "stored_vector d = map_of d embeddingKey"

definition paired :: "env \<Rightarrow> nat \<Rightarrow> obj \<Rightarrow> bool" where
  "paired env i d =
     (case stored_text d of
        None \<Rightarrow> False
      | Some t \<Rightarrow>
          (case embedDocuments env i t of
             Inl e \<Rightarrow> False
           | Inr v \<Rightarrow> stored_vector d = Some (vector_json v)) \<and>
          (case FrontendPrincipleSchema (JObj d) of
             Inl e \<Rightarrow> False
           | Inr r \<Rightarrow> t = createFrontendPrincipleSummary r))"

subsection \<open>Concrete runs\<close>

definition rec_a :: FrontendPrinciple where
  "rec_a =
     \<lparr> principle_id = ''p1'', name = ''Grid'', description = ''d'',
       keyConcepts = [''A''], designGuidelines = [], commonPitfalls = [],
       bestPractices = [], relevantTechnologies = [], notes' = ''n'' \<rparr>"

definition rec_b :: FrontendPrinciple where
  "rec_b =
     \<lparr> principle_id = ''p2'', name = ''Flex'', description = ''d'',
       keyConcepts = [], designGuidelines = [], commonPitfalls = [],
       bestPractices = [], relevantTechnologies = [], notes' = ''n'' \<rparr>"

text \<open>
  A world in which every call completes. The model answers with a text that the parser
  reads as the array of the two records; other texts are read as the empty array, as an
  array of one well-formed record and one object whose \<^verbatim>\<open>name\<close> is a number, as an
  array of three records of which the first two are the same, and as no JSON at all.
  The embedding stub returns the length of its input.
\<close>

definition stub_parse :: "string \<Rightarrow> json option" where
  "stub_parse t =
     (if t = ''two records'' then Some (JArr [JObj (object_of rec_a), JObj (object_of rec_b)])
      else if t = ''three records''
        then Some (JArr [JObj (object_of rec_a), JObj (object_of rec_a), JObj (object_of rec_b)])
      else if t = ''[]'' then Some (JArr [])
      else if t = ''one good, one bad''
        then Some (JArr [JObj (object_of rec_a), JObj [(''name'', JNum 42)]])
      else None)"

definition stub_embed :: "string \<Rightarrow> real list" where
  "stub_embed t = [real (length t)]"

definition env_ok :: env where
  "env_ok =
     \<lparr> client_connect = None, admin_ping = None, collection_deleteMany = None,
       getFormatInstructions = ''format'',
       llm_invoke = (\<lambda>p. Inr ''two records''),
       json_parse = stub_parse,
       embedDocuments = (\<lambda>i t. Inr (stub_embed t)),
       collection_insertMany = (\<lambda>i d. None),
       client_close = None \<rparr>"

text \<open>
  Worlds in which one embedding call fails: the first call, and the second call of a
  run on the three records (the text of that call was embedded at the first call).
\<close>

definition env_fail_first :: env where
  "env_fail_first =
     env_ok\<lparr>embedDocuments :=
       (\<lambda>i t. if i = 0 then Inl EmbeddingError else Inr (stub_embed t))\<rparr>"

definition env_fail_second :: env where
  "env_fail_second =
     env_ok\<lparr>llm_invoke := (\<lambda>p. Inr ''three records''),
            embedDocuments :=
              (\<lambda>i t. if i = 1 then Inl EmbeddingError else Inr (stub_embed t))\<rparr>"

definition env_empty :: env where
  "env_empty = env_ok\<lparr>llm_invoke := (\<lambda>p. Inr ''[]'')\<rparr>"

definition env_mixed :: env where
  "env_mixed = env_ok\<lparr>llm_invoke := (\<lambda>p. Inr ''one good, one bad'')\<rparr>"

definition env_unparsable :: env where
  "env_unparsable = env_ok\<lparr>llm_invoke := (\<lambda>p. Inr ''I cannot help with that.'')\<rparr>"

text \<open>A world in which the store cannot be reached.\<close>

definition env_unreachable :: env where
  "env_unreachable = env_ok\<lparr>client_connect := Some ConnectError\<rparr>"

text \<open>Worlds in which \<^verbatim>\<open>client.close()\<close> throws.\<close>

definition env_close_throws :: env where
  "env_close_throws = env_ok\<lparr>client_close := Some CloseError\<rparr>"

definition env_unparsable_close_throws :: env where
  "env_unparsable_close_throws = env_unparsable\<lparr>client_close := Some CloseError\<rparr>"

text \<open>A collection that holds one unrelated document before the run.\<close>

definition s0 :: state where
  "s0 = \<lparr> collection = [[(''title'', JStr ''unrelated'')]], connected = False, trace = [] \<rparr>"

text \<open>
  A chat session with one earlier exchange and a typed message, and a backend that
  answers status 500 with a JSON body.
\<close>

definition chat0 :: chat_state where
  "chat0 =
     \<lparr> messages = [\<lparr>sender = User, text' = Some (JStr ''hello'')\<rparr>,
                   \<lparr>sender = Agent, text' = Some (JStr ''Hi, how can I help?'')\<rparr>],
       input' = '' what is a grid? '', threadId = Some (JStr ''t1''), isLoading = False \<rparr>"

definition env_500 :: chat_env where
  "env_500 =
     \<lparr> VITE_API_URL = None,
       fetch = (\<lambda>u body. Response 500 (Some (JObj [(''error'', JStr ''Internal server error'')]))),
       js_String = (\<lambda>j. ''[object Object]'') \<rparr>"

definition env_offline :: chat_env where
  "env_offline = env_500\<lparr>fetch := (\<lambda>u body. Rejected)\<rparr>"

text \<open>A backend that answers with the JSON body \<^verbatim>\<open>null\<close>, and an input of two no-break spaces.\<close>

definition env_null :: chat_env where
  "env_null = env_500\<lparr>fetch := (\<lambda>u body. Response 200 (Some JNull))\<rparr>"

definition chat_blank :: chat_state where
  "chat_blank = chat0\<lparr>input' := [CHR 0xC2, CHR 0xA0, CHR 0xC2, CHR 0xA0]\<rparr>"

section \<open>The summary\<close>

lemma join_unfold:
  "join sep xs = (case xs of [] \<Rightarrow> [] | x # rest \<Rightarrow> x @ concat (map (\<lambda>y. sep @ y) rest))"
  by (induction sep xs rule: join.induct) simp_all

lemma join_comma_joined: "join '', '' xs = comma_joined xs"
  unfolding comma_joined_def by (rule join_unfold)

text \<open>
  Claim C7. The summary is a function of the record alone (the model takes no state and
  no capability, so two calls on one record give the same string). It is the
  concatenation the specification describes: name, id and description, then the five
  list fields in fixed order, each as its label and its comma-joined items in their
  original order, then the notes. On the specification's example record it is exactly
  the expected text.
\<close>

theorem createFrontendPrincipleSummary_spec:
  "createFrontendPrincipleSummary r = summarize_spec r \<and>
   createFrontendPrincipleSummary example_record =
     ''Consistency (p1): .... Key Concepts: A, B. Design Guidelines: G1. Common Pitfalls: . Best Practices: BP1. Technologies: Tech1. Notes: n''"
proof
  show "createFrontendPrincipleSummary r = summarize_spec r"
    by (simp add: createFrontendPrincipleSummary_def summarize_spec_def list_fields_def
        join_comma_joined)
next
  show "createFrontendPrincipleSummary example_record =
     ''Consistency (p1): .... Key Concepts: A, B. Design Guidelines: G1. Common Pitfalls: . Best Practices: BP1. Technologies: Tech1. Notes: n''"
    by (simp add: createFrontendPrincipleSummary_def example_record_def)
qed

section \<open>The seeding run\<close>

subsection \<open>Calls and logged errors of a trace\<close>

lemma errors_logged_append:
  "errors_logged (xs @ ys) = errors_logged xs @ errors_logged ys"
  by (induction xs rule: errors_logged.induct) simp_all

lemma embed_calls_append: "embed_calls (xs @ ys) = embed_calls xs @ embed_calls ys"
  by (induction xs rule: embed_calls.induct) simp_all

lemma insert_calls_append: "insert_calls (xs @ ys) = insert_calls xs @ insert_calls ys"
  by (induction xs rule: insert_calls.induct) simp_all

lemma invoke_calls_append: "invoke_calls (xs @ ys) = invoke_calls xs @ invoke_calls ys"
  by (induction xs rule: invoke_calls.induct) simp_all


lemma errors_logged_emit:
  "errors_logged (trace (emit ev s)) = errors_logged (trace s) @ errors_logged [ev]"
  by (simp add: emit_def errors_logged_append)

lemma embed_calls_emit:
  "embed_calls (trace (emit ev s)) = embed_calls (trace s) @ embed_calls [ev]"
  by (simp add: emit_def embed_calls_append)

lemma insert_calls_emit:
  "insert_calls (trace (emit ev s)) = insert_calls (trace s) @ insert_calls [ev]"
  by (simp add: emit_def insert_calls_append)

lemma invoke_calls_emit:
  "invoke_calls (trace (emit ev s)) = invoke_calls (trace s) @ invoke_calls [ev]"
  by (simp add: emit_def invoke_calls_append)

subsection \<open>Effects of the parts of a run\<close>

lemma generateSyntheticData_eq:
  "generateSyntheticData env s =
     (generation env,
      emit (Invoke (prompt (getFormatInstructions env)))
        (emit (ConsoleLog ''Generating synthetic frontend principles data...'') s))"
  by (simp add: generateSyntheticData_def generation_def bindE_def Let_def split: sum.splits)

lemma fromDocuments_collection:
  "collection (snd (fromDocuments env i (with_summary r) s)) =
     collection s @ (case embed_and_write env i r of Inl e \<Rightarrow> [] | Inr d \<Rightarrow> [d])"
  by (simp add: fromDocuments_def embed_and_write_def with_summary_def emit_def Let_def
      split: sum.splits option.splits)

lemma fromDocuments_result:
  "fst (fromDocuments env i (with_summary r) s) =
     (case embed_and_write env i r of Inl e \<Rightarrow> Some e | Inr d \<Rightarrow> None)"
  by (simp add: fromDocuments_def embed_and_write_def with_summary_def emit_def Let_def
      split: sum.splits option.splits)



lemma fromDocuments_errors_logged:
  "errors_logged (trace (snd (fromDocuments env i d s))) = errors_logged (trace s)"
  by (simp add: fromDocuments_def errors_logged_emit Let_def split: sum.splits option.splits)

lemma fromDocuments_invoke_calls:
  "invoke_calls (trace (snd (fromDocuments env i d s))) = invoke_calls (trace s)"
  by (simp add: fromDocuments_def invoke_calls_emit Let_def split: sum.splits option.splits)

lemma fromDocuments_embed_calls:
  "embed_calls (trace (snd (fromDocuments env i (with_summary r) s))) =
     embed_calls (trace s) @ [createFrontendPrincipleSummary r]"
  by (simp add: fromDocuments_def with_summary_def embed_calls_emit Let_def
      split: sum.splits option.splits)

lemma fromDocuments_insert_calls:
  "insert_calls (trace (snd (fromDocuments env i (with_summary r) s))) =
     insert_calls (trace s) @
     (case embedDocuments env i (createFrontendPrincipleSummary r) of
        Inl e \<Rightarrow> []
      | Inr v \<Rightarrow> [stored_document (with_summary r) v])"
  by (simp add: fromDocuments_def with_summary_def insert_calls_emit Let_def
      split: sum.splits option.splits)

lemma fromDocuments_trace:
  "\<exists>evs. trace (snd (fromDocuments env i d s)) = trace s @ evs \<and> invoke_calls evs = []"
  by (simp add: fromDocuments_def emit_def Let_def split: sum.splits option.splits)

lemma written_from_Nil: "written_from env n [] = []"
  by (simp add: written_from_def)

lemma written_from_Cons:
  "written_from env n (r # rs) =
     (if step_ok env n r then document_of env n r # written_from env (Suc n) rs else [])"
  by (simp add: written_from_def)

lemma first_failure_from_Nil: "first_failure_from env n [] = None"
  by (simp add: first_failure_from_def)

lemma first_failure_from_Cons:
  "first_failure_from env n (r # rs) =
     (case embed_and_write env n r of
        Inl e \<Rightarrow> Some e
      | Inr d \<Rightarrow> first_failure_from env (Suc n) rs)"
  by (simp add: first_failure_from_def step_ok_def split: sum.splits)



lemma write_loop_errors_logged:
  "errors_logged (trace (snd (write_loop env n ds s))) = errors_logged (trace s)"
proof (induction ds arbitrary: n s)
  case Nil
  show ?case by simp
next
  case (Cons d ds)
  show ?case
    using fromDocuments_errors_logged[of env n d s] Cons.IH
    by (cases "fromDocuments env n d s") (auto simp: errors_logged_emit split: option.splits)
qed

lemma write_loop_trace:
  "\<exists>evs. trace (snd (write_loop env n ds s)) = trace s @ evs \<and> invoke_calls evs = []"
proof (induction ds arbitrary: n s)
  case Nil
  show ?case by simp
next
  case (Cons d ds)
  obtain r s1 where f: "fromDocuments env n d s = (r, s1)"
    by (cases "fromDocuments env n d s")
  from fromDocuments_trace[of env n d s] f obtain evs
    where evs: "trace s1 = trace s @ evs" "invoke_calls evs = []"
    by auto
  show ?case
  proof (cases r)
    case (Some e)
    with f evs show ?thesis by simp
  next
    case None
    let ?s2 = "emit (ConsoleLogId ''Successfully processed & saved record:''
                 (principle_id (metadata d))) s1"
    from Cons.IH[of "Suc n" ?s2] obtain evs'
      where "trace (snd (write_loop env (Suc n) ds ?s2)) = trace ?s2 @ evs'" "invoke_calls evs' = []"
      by auto
    with None f evs show ?thesis
      by (simp add: emit_def invoke_calls_append)
  qed
qed

text \<open>
  One turn of the loop, by the outcome of the step: the state after
  \<^const>\<open>fromDocuments\<close> is named, so that the lemmas above describe it.
\<close>

lemma write_loop_Cons:
  "write_loop env n (with_summary r # ds) s =
     (case embed_and_write env n r of
        Inl e \<Rightarrow> (Some e, snd (fromDocuments env n (with_summary r) s))
      | Inr d \<Rightarrow>
          write_loop env (Suc n) ds
            (emit (ConsoleLogId ''Successfully processed & saved record:'' (principle_id r))
               (snd (fromDocuments env n (with_summary r) s))))"
  using fromDocuments_result[of env n r s]
  by (cases "fromDocuments env n (with_summary r) s")
     (auto simp: with_summary_def split: sum.splits)

declare write_loop.simps(2) [simp del]

lemma write_loop_collection:
  "collection (snd (write_loop env n (map with_summary rs) s)) = collection s @ written_from env n rs"
proof (induction rs arbitrary: n s)
  case Nil
  show ?case by (simp add: written_from_Nil)
next
  case (Cons r rs)
  show ?case
    using fromDocuments_collection[of env n r s]
    by (cases "embed_and_write env n r")
       (simp_all add: write_loop_Cons written_from_Cons step_ok_def document_of_def Cons.IH emit_def)
qed

lemma write_loop_result:
  "fst (write_loop env n (map with_summary rs) s) = first_failure_from env n rs"
proof (induction rs arbitrary: n s)
  case Nil
  show ?case by (simp add: first_failure_from_Nil)
next
  case (Cons r rs)
  show ?case
    by (cases "embed_and_write env n r")
       (simp_all add: write_loop_Cons first_failure_from_Cons Cons.IH)
qed

lemma write_loop_embed_calls:
  "embed_calls (trace (snd (write_loop env n (map with_summary rs) s))) =
     embed_calls (trace s) @ loop_embeds env n rs"
proof (induction rs arbitrary: n s)
  case Nil
  show ?case by simp
next
  case (Cons r rs)
  show ?case
    by (cases "embed_and_write env n r")
       (simp_all add: write_loop_Cons step_ok_def Cons.IH embed_calls_emit fromDocuments_embed_calls)
qed

lemma write_loop_insert_calls:
  "insert_calls (trace (snd (write_loop env n (map with_summary rs) s))) =
     insert_calls (trace s) @ loop_inserts env n rs"
proof (induction rs arbitrary: n s)
  case Nil
  show ?case by simp
next
  case (Cons r rs)
  show ?case
  proof (cases "embed_and_write env n r")
    case (Inl e)
    then show ?thesis
      by (simp add: write_loop_Cons step_ok_def fromDocuments_insert_calls split: sum.splits)
  next
    case (Inr d)
    then obtain v where "embedDocuments env n (createFrontendPrincipleSummary r) = Inr v"
      by (auto simp: embed_and_write_def split: sum.splits)
    with Inr show ?thesis
      by (simp add: write_loop_Cons step_ok_def Cons.IH insert_calls_emit
          fromDocuments_insert_calls)
  qed
qed

subsection \<open>Effects of a run\<close>

lemma try_block_result: "fst (try_block env s) = run_failure env"
  by (simp add: try_block_def run_failure_def first_failure_def generateSyntheticData_eq
      write_loop_result case_prod_beta Let_def split: option.splits sum.splits)

lemma try_block_collection:
  "collection (snd (try_block env s)) =
     (if cleared env then (case generation env of Inl e \<Rightarrow> [] | Inr rs \<Rightarrow> written env rs)
      else collection s)"
  by (simp add: try_block_def cleared_def written_def generateSyntheticData_eq write_loop_result
      write_loop_collection emit_def case_prod_beta Let_def split: option.splits sum.splits)



lemma try_block_errors_logged:
  "errors_logged (trace (snd (try_block env s))) = errors_logged (trace s)"
  by (simp add: try_block_def generateSyntheticData_eq
      write_loop_errors_logged errors_logged_emit case_prod_beta Let_def split: option.splits sum.splits)

lemma try_block_embed_calls:
  "embed_calls (trace (snd (try_block env s))) =
     embed_calls (trace s) @
     (if cleared env then (case generation env of Inl e \<Rightarrow> [] | Inr rs \<Rightarrow> loop_embeds env 0 rs)
      else [])"
  by (simp add: try_block_def cleared_def generateSyntheticData_eq write_loop_embed_calls
      embed_calls_emit case_prod_beta Let_def split: option.splits sum.splits)

lemma try_block_insert_calls:
  "insert_calls (trace (snd (try_block env s))) =
     insert_calls (trace s) @
     (if cleared env then (case generation env of Inl e \<Rightarrow> [] | Inr rs \<Rightarrow> loop_inserts env 0 rs)
      else [])"
  by (simp add: try_block_def cleared_def generateSyntheticData_eq write_loop_insert_calls
      insert_calls_emit case_prod_beta Let_def split: option.splits sum.splits)

lemma seedDatabase_result:
  "fst (seedDatabase env s) = (case client_close env of None \<Rightarrow> Inr () | Some e \<Rightarrow> Inl e)"
  by (simp add: seedDatabase_def case_prod_beta Let_def split: option.splits)

lemma seedDatabase_collection:
  "collection (snd (seedDatabase env s)) =
     (if cleared env then (case generation env of Inl e \<Rightarrow> [] | Inr rs \<Rightarrow> written env rs)
      else collection s)"
  using try_block_collection[of env s]
  by (simp add: seedDatabase_def emit_def case_prod_beta Let_def split: option.splits)




lemma seedDatabase_errors_logged:
  "errors_logged (trace (snd (seedDatabase env s))) =
     errors_logged (trace s) @ (case run_failure env of None \<Rightarrow> [] | Some e \<Rightarrow> [e])"
  using try_block_errors_logged[of env s] try_block_result[of env s]
  by (simp add: seedDatabase_def errors_logged_emit case_prod_beta Let_def split: option.splits)

lemma seedDatabase_embed_calls:
  "embed_calls (trace (snd (seedDatabase env s))) =
     embed_calls (trace s) @
     (if cleared env then (case generation env of Inl e \<Rightarrow> [] | Inr rs \<Rightarrow> loop_embeds env 0 rs)
      else [])"
  using try_block_embed_calls[of env s]
  by (simp add: seedDatabase_def embed_calls_emit case_prod_beta Let_def split: option.splits)

lemma seedDatabase_insert_calls:
  "insert_calls (trace (snd (seedDatabase env s))) =
     insert_calls (trace s) @
     (if cleared env then (case generation env of Inl e \<Rightarrow> [] | Inr rs \<Rightarrow> loop_inserts env 0 rs)
      else [])"
  using try_block_insert_calls[of env s]
  by (simp add: seedDatabase_def insert_calls_emit case_prod_beta Let_def split: option.splits)

lemma seedDatabase_trace_generation_fails:
  assumes "cleared env" and "generation env = Inl e"
  shows "trace (snd (seedDatabase env s)) =
     trace s @
     [Connect, Ping,
      ConsoleLog ''Pinged your deployment. You successfully connected to MongoDB!'',
      DeleteMany,
      ConsoleLog ''Generating synthetic frontend principles data...'',
      Invoke (prompt (getFormatInstructions env)),
      ConsoleError ''Error seeding database:'' e, Close]"
  using assms
  by (simp add: seedDatabase_def try_block_def cleared_def generateSyntheticData_eq emit_def
      case_prod_beta Let_def split: option.splits)

lemma seedDatabase_trace_empty_batch:
  assumes "cleared env" and "generation env = Inr []"
  shows "trace (snd (seedDatabase env s)) =
     trace s @
     [Connect, Ping,
      ConsoleLog ''Pinged your deployment. You successfully connected to MongoDB!'',
      DeleteMany,
      ConsoleLog ''Generating synthetic frontend principles data...'',
      Invoke (prompt (getFormatInstructions env)),
      ConsoleLog ''Database seeding completed'', Close]"
  using assms
  by (simp add: seedDatabase_def try_block_def cleared_def generateSyntheticData_eq emit_def
      case_prod_beta Let_def split: option.splits)

lemma try_block_trace_cleared:
  assumes "cleared env"
  shows "\<exists>rest. trace (snd (try_block env s)) =
           trace s @
           [Connect, Ping,
            ConsoleLog ''Pinged your deployment. You successfully connected to MongoDB!'',
            DeleteMany,
            ConsoleLog ''Generating synthetic frontend principles data...'',
            Invoke (prompt (getFormatInstructions env))] @ rest \<and>
         invoke_calls rest = []"
proof (cases "generation env")
  case (Inl e)
  with assms show ?thesis
    by (simp add: try_block_def cleared_def generateSyntheticData_eq emit_def Let_def)
next
  case (Inr rs)
  define s5 where "s5 = emit (Invoke (prompt (getFormatInstructions env)))
      (emit (ConsoleLog ''Generating synthetic frontend principles data...'')
        ((emit DeleteMany
          (emit (ConsoleLog ''Pinged your deployment. You successfully connected to MongoDB!'')
            (emit Ping ((emit Connect s)\<lparr>connected := True\<rparr>))))\<lparr>collection := []\<rparr>))"
  have t5: "trace s5 = trace s @
           [Connect, Ping,
            ConsoleLog ''Pinged your deployment. You successfully connected to MongoDB!'',
            DeleteMany,
            ConsoleLog ''Generating synthetic frontend principles data...'',
            Invoke (prompt (getFormatInstructions env))]"
    by (simp add: s5_def emit_def)
  have tb: "try_block env s =
      (case write_loop env 0 (map with_summary rs) s5 of
         (Some e, s6) \<Rightarrow> (Some e, s6)
       | (None, s6) \<Rightarrow> (None, emit (ConsoleLog ''Database seeding completed'') s6))"
    using assms Inr
    by (simp add: try_block_def cleared_def generateSyntheticData_eq s5_def Let_def)
  obtain r s6 where w: "write_loop env 0 (map with_summary rs) s5 = (r, s6)"
    by (cases "write_loop env 0 (map with_summary rs) s5")
  from write_loop_trace[of env 0 "map with_summary rs" s5] w obtain evs
    where evs: "trace s6 = trace s5 @ evs" "invoke_calls evs = []"
    by auto
  show ?thesis
  proof (cases r)
    case (Some e)
    with tb w have "trace (snd (try_block env s)) = trace s6"
      by simp
    with evs t5 show ?thesis
      by simp
  next
    case None
    with tb w have "trace (snd (try_block env s)) =
        trace s6 @ [ConsoleLog ''Database seeding completed'']"
      by (simp add: emit_def)
    with evs t5 have "trace (snd (try_block env s)) =
        trace s @
           [Connect, Ping,
            ConsoleLog ''Pinged your deployment. You successfully connected to MongoDB!'',
            DeleteMany,
            ConsoleLog ''Generating synthetic frontend principles data...'',
            Invoke (prompt (getFormatInstructions env))] @
           (evs @ [ConsoleLog ''Database seeding completed''])"
      by simp
    moreover from evs have "invoke_calls (evs @ [ConsoleLog ''Database seeding completed'']) = []"
      by (simp add: invoke_calls_append)
    ultimately show ?thesis
      by blast
  qed
qed

lemma seedDatabase_trace:
  "trace (snd (seedDatabase env s)) =
     trace (snd (try_block env s)) @
     (case fst (try_block env s) of
        None \<Rightarrow> []
      | Some e \<Rightarrow> [ConsoleError ''Error seeding database:'' e]) @ [Close]"
  by (simp add: seedDatabase_def emit_def case_prod_beta Let_def split: option.splits)

lemma seedDatabase_trace_cleared:
  assumes "cleared env"
  shows "\<exists>rest. trace (snd (seedDatabase env s)) =
           trace s @
           [Connect, Ping,
            ConsoleLog ''Pinged your deployment. You successfully connected to MongoDB!'',
            DeleteMany,
            ConsoleLog ''Generating synthetic frontend principles data...'',
            Invoke (prompt (getFormatInstructions env))] @ rest \<and>
         invoke_calls rest = []"
proof -
  from try_block_trace_cleared[OF assms, of s] obtain rest
    where rest: "trace (snd (try_block env s)) =
           trace s @
           [Connect, Ping,
            ConsoleLog ''Pinged your deployment. You successfully connected to MongoDB!'',
            DeleteMany,
            ConsoleLog ''Generating synthetic frontend principles data...'',
            Invoke (prompt (getFormatInstructions env))] @ rest"
      and inv: "invoke_calls rest = []"
    by blast
  define tail where "tail = rest @
     (case fst (try_block env s) of
        None \<Rightarrow> []
      | Some e \<Rightarrow> [ConsoleError ''Error seeding database:'' e]) @ [Close]"
  from rest have "trace (snd (seedDatabase env s)) =
           trace s @
           [Connect, Ping,
            ConsoleLog ''Pinged your deployment. You successfully connected to MongoDB!'',
            DeleteMany,
            ConsoleLog ''Generating synthetic frontend principles data...'',
            Invoke (prompt (getFormatInstructions env))] @ tail"
    by (simp add: seedDatabase_trace tail_def)
  moreover from inv have "invoke_calls tail = []"
    by (simp add: tail_def invoke_calls_append split: option.splits)
  ultimately show ?thesis
    by blast
qed

lemma seedDatabase_invoke_calls_not_cleared:
  assumes "\<not> cleared env"
  shows "invoke_calls (trace (snd (seedDatabase env s))) = invoke_calls (trace s)"
  using assms
  by (auto simp: seedDatabase_def try_block_def cleared_def emit_def invoke_calls_append
      Let_def split: option.splits)

subsection \<open>The first failing record\<close>

lemma written_from_prefix:
  assumes "\<forall>i<length pre. step_ok env (n + i) (pre ! i)"
    and "\<not> step_ok env (n + length pre) r"
  shows "written_from env n (pre @ r # post) =
           map (\<lambda>(i, r). document_of env i r) (enumerate n pre)"
  using assms
proof (induction pre arbitrary: n)
  case Nil
  then show ?case by (simp add: written_from_Cons)
next
  case (Cons x xs)
  from Cons.prems(1) have x: "step_ok env n x"
    by fastforce
  from Cons.prems(1) have xs: "\<forall>i<length xs. step_ok env (Suc n + i) (xs ! i)"
    by fastforce
  from Cons.prems(2) have r: "\<not> step_ok env (Suc n + length xs) r"
    by simp
  from Cons.IH[OF xs r] x show ?case
    by (simp add: written_from_Cons)
qed

lemma first_failure_from_prefix:
  assumes "\<forall>i<length pre. step_ok env (n + i) (pre ! i)"
    and "embed_and_write env (n + length pre) r = Inl e"
  shows "first_failure_from env n (pre @ r # post) = Some e"
  using assms
proof (induction pre arbitrary: n)
  case Nil
  then show ?case by (simp add: first_failure_from_Cons)
next
  case (Cons x xs)
  from Cons.prems(1) have "step_ok env n x"
    by fastforce
  then obtain d where x: "embed_and_write env n x = Inr d"
    by (auto simp: step_ok_def split: sum.splits)
  from Cons.prems(1) have xs: "\<forall>i<length xs. step_ok env (Suc n + i) (xs ! i)"
    by fastforce
  from Cons.prems(2) have r: "embed_and_write env (Suc n + length xs) r = Inl e"
    by simp
  from Cons.IH[OF xs r] x show ?case
    by (simp add: first_failure_from_Cons)
qed

lemma loop_embeds_prefix:
  assumes "\<forall>i<length pre. step_ok env (n + i) (pre ! i)"
    and "\<not> step_ok env (n + length pre) r"
  shows "loop_embeds env n (pre @ r # post) =
           map createFrontendPrincipleSummary (pre @ [r])"
  using assms
proof (induction pre arbitrary: n)
  case Nil
  then show ?case by simp
next
  case (Cons x xs)
  from Cons.prems(1) have x: "step_ok env n x"
    by fastforce
  from Cons.prems(1) have xs: "\<forall>i<length xs. step_ok env (Suc n + i) (xs ! i)"
    by fastforce
  from Cons.prems(2) have r: "\<not> step_ok env (Suc n + length xs) r"
    by simp
  from Cons.IH[OF xs r] x show ?case
    by simp
qed

lemma step_ok_embedding:
  assumes "step_ok env n x"
  shows "\<exists>v. embedDocuments env n (createFrontendPrincipleSummary x) = Inr v \<and>
             document_of env n x = stored_document (with_summary x) v"
  using assms
  by (auto simp: step_ok_def document_of_def embed_and_write_def split: sum.splits option.splits)

lemma loop_inserts_prefix:
  assumes "\<forall>i<length pre. step_ok env (n + i) (pre ! i)"
    and "\<not> step_ok env (n + length pre) r"
  shows "loop_inserts env n (pre @ r # post) =
           map (\<lambda>(i, r). document_of env i r) (enumerate n pre) @
           (case embedDocuments env (n + length pre) (createFrontendPrincipleSummary r) of
              Inl e \<Rightarrow> []
            | Inr v \<Rightarrow> [stored_document (with_summary r) v])"
  using assms
proof (induction pre arbitrary: n)
  case Nil
  then show ?case by (simp split: sum.splits)
next
  case (Cons x xs)
  from Cons.prems(1) have x: "step_ok env n x"
    by fastforce
  from Cons.prems(1) have xs: "\<forall>i<length xs. step_ok env (Suc n + i) (xs ! i)"
    by fastforce
  from Cons.prems(2) have r: "\<not> step_ok env (Suc n + length xs) r"
    by simp
  from step_ok_embedding[OF x] obtain v
    where "embedDocuments env n (createFrontendPrincipleSummary x) = Inr v"
      and "document_of env n x = stored_document (with_summary x) v"
    by blast
  with Cons.IH[OF xs r] x show ?case
    by simp
qed

lemma written_from_nth:
  assumes "i < length (written_from env n rs)"
  shows "i < length rs \<and> step_ok env (n + i) (rs ! i) \<and>
         written_from env n rs ! i = document_of env (n + i) (rs ! i)"
  using assms
proof (induction rs arbitrary: n i)
  case Nil
  then show ?case by (simp add: written_from_Nil)
next
  case (Cons r rs)
  from Cons.prems have ok: "step_ok env n r"
    by (simp add: written_from_Cons split: if_splits)
  show ?case
  proof (cases i)
    case 0
    with ok show ?thesis by (simp add: written_from_Cons)
  next
    case (Suc j)
    with Cons.prems ok have "j < length (written_from env (Suc n) rs)"
      by (simp add: written_from_Cons)
    from Cons.IH[OF this] Suc ok show ?thesis
      by (simp add: written_from_Cons)
  qed
qed

subsection \<open>Records that pass the schema\<close>

lemma collect_map_JStr: "collect (map (z_string \<circ> JStr) xs) = Inr xs"
  by (induction xs) simp_all

lemma FrontendPrincipleSchema_object_of: "FrontendPrincipleSchema (JObj (object_of r)) = Inr r"
  by (simp add: object_of_def field_def bindE_def strs_def collect_map_JStr)

declare FrontendPrincipleSchema.simps [simp del]

lemma stored_document_eq:
  "stored_document (with_summary r) v =
     (textKey, JStr (createFrontendPrincipleSummary r)) # (embeddingKey, vector_json v) # object_of r"
  by (simp add: stored_document_def with_summary_def spread_def object_of_def textKey_def
      embeddingKey_def)

lemma FrontendPrincipleSchema_stored_document:
  "FrontendPrincipleSchema (JObj (stored_document (with_summary r) v)) = Inr r"
  by (simp add: FrontendPrincipleSchema.simps stored_document_eq textKey_def embeddingKey_def
      object_of_def field_def bindE_def strs_def collect_map_JStr)

lemma stored_text_stored_document:
  "stored_text (stored_document (with_summary r) v) = Some (createFrontendPrincipleSummary r)"
  by (simp add: stored_text_def stored_document_eq)

lemma stored_vector_stored_document:
  "stored_vector (stored_document (with_summary r) v) = Some (vector_json v)"
  by (simp add: stored_vector_def stored_document_eq textKey_def embeddingKey_def)

lemma paired_document_of:
  assumes "step_ok env i r"
  shows "paired env i (document_of env i r)"
proof -
  from step_ok_embedding[OF assms] obtain v
    where v: "embedDocuments env i (createFrontendPrincipleSummary r) = Inr v"
      and d: "document_of env i r = stored_document (with_summary r) v"
    by blast
  then show ?thesis
    by (simp add: paired_def stored_text_stored_document stored_vector_stored_document
        FrontendPrincipleSchema_stored_document)
qed

lemma paired_written:
  assumes "i < length (written env rs)"
  shows "paired env i (written env rs ! i)"
  using written_from_nth[of i env 0 rs] assms
  by (simp add: written_def paired_document_of)

lemma paired_stub:
  assumes "paired env i d" and "embedDocuments env = (\<lambda>i t. Inr (hash t))"
  shows "\<exists>t. stored_text d = Some t \<and> stored_vector d = Some (vector_json (hash t))"
  using assms by (auto simp: paired_def split: option.splits sum.splits)

subsection \<open>The parser on an array\<close>

lemma collect_InrD: "collect rs = Inr xs \<Longrightarrow> rs = map Inr xs"
proof (induction rs arbitrary: xs)
  case Nil
  then show ?case by simp
next
  case (Cons a rs)
  show ?case
  proof (cases a)
    case (Inl e)
    with Cons.prems show ?thesis by simp
  next
    case (Inr x)
    with Cons show ?thesis by (auto split: sum.splits)
  qed
qed

lemma collect_Inl:
  assumes "Inl e \<in> set rs"
  shows "\<exists>e'. collect rs = Inl e'"
  using assms
proof (induction rs rule: collect.induct)
  case 1
  then show ?case by simp
next
  case (2 e' rs)
  show ?case by simp
next
  case (3 x rs)
  then show ?case by (auto split: sum.splits)
qed

lemma collect_all_valid:
  assumes "\<forall>j\<in>set js. valid j"
  shows "\<exists>rs. collect (map FrontendPrincipleSchema js) = Inr rs"
  using assms
proof (induction js)
  case Nil
  show ?case by simp
next
  case (Cons j js)
  then obtain r rs where "FrontendPrincipleSchema j = Inr r"
    and "collect (map FrontendPrincipleSchema js) = Inr rs"
    by (auto simp: valid_def split: sum.splits)
  then show ?case by simp
qed

lemma parser_parse_array:
  assumes "json_parse env txt = Some (JArr js)"
  shows "parser_parse env txt =
     (case collect (map FrontendPrincipleSchema js) of
        Inl e \<Rightarrow> Inl OutputParserException | Inr rs \<Rightarrow> Inr rs)"
  using assms by (simp add: parser_parse_def)

lemma parser_parse_invalid_batch:
  assumes "json_parse env txt = Some j" and "\<not> valid_batch j"
  shows "parser_parse env txt = Inl OutputParserException"
proof (cases j)
  case (JArr js)
  with assms(2) have "\<exists>x\<in>set js. \<not> valid x"
    by (simp add: list_all_iff)
  then obtain x where x: "x \<in> set js" and "\<not> valid x"
    by blast
  then obtain e where "FrontendPrincipleSchema x = Inl e"
    by (cases "FrontendPrincipleSchema x") (simp_all add: valid_def)
  with x have "Inl e \<in> set (map FrontendPrincipleSchema js)"
    by force
  then obtain e' where "collect (map FrontendPrincipleSchema js) = Inl e'"
    using collect_Inl by blast
  with assms(1) JArr show ?thesis
    by (simp add: parser_parse_def)
qed (use assms(1) in \<open>simp_all add: parser_parse_def\<close>)

lemma valid_object_of: "valid (JObj (object_of r))"
  by (simp add: valid_def FrontendPrincipleSchema_object_of)

lemma schema_number_name: "FrontendPrincipleSchema (JObj [(''name'', JNum 42)]) = Inl ZodError"
  by (simp add: FrontendPrincipleSchema.simps field_def bindE_def)

lemma not_valid_number_name: "\<not> valid (JObj [(''name'', JNum 42)])"
  by (simp add: valid_def schema_number_name)

subsection \<open>The concrete runs\<close>

lemma generation_env_ok: "generation env_ok = Inr [rec_a, rec_b]"
  by (simp add: generation_def env_ok_def bindE_def parser_parse_def stub_parse_def
      FrontendPrincipleSchema_object_of)

lemma generation_env_fail_first: "generation env_fail_first = Inr [rec_a, rec_b]"
  by (simp add: generation_def env_fail_first_def env_ok_def bindE_def parser_parse_def stub_parse_def
      FrontendPrincipleSchema_object_of)

lemma generation_env_fail_second: "generation env_fail_second = Inr [rec_a, rec_a, rec_b]"
  by (simp add: generation_def env_fail_second_def env_ok_def bindE_def parser_parse_def
      stub_parse_def FrontendPrincipleSchema_object_of)

lemma generation_env_close_throws: "generation env_close_throws = Inr [rec_a, rec_b]"
  by (simp add: generation_def env_close_throws_def env_ok_def bindE_def parser_parse_def
      stub_parse_def FrontendPrincipleSchema_object_of)

lemma generation_env_mixed: "generation env_mixed = Inl OutputParserException"
  by (simp add: generation_def env_mixed_def env_ok_def bindE_def parser_parse_def stub_parse_def
      FrontendPrincipleSchema_object_of schema_number_name)

lemma generation_env_empty: "generation env_empty = Inr []"
  by (simp add: generation_def env_empty_def env_ok_def bindE_def parser_parse_def stub_parse_def)

lemma generation_env_unparsable: "generation env_unparsable = Inl OutputParserException"
  by (simp add: generation_def env_unparsable_def env_ok_def bindE_def parser_parse_def stub_parse_def)

lemma generation_env_unparsable_close_throws:
  "generation env_unparsable_close_throws = Inl OutputParserException"
  by (simp add: generation_def env_unparsable_close_throws_def env_unparsable_def env_ok_def
      bindE_def parser_parse_def stub_parse_def)

lemma cleared_env_ok: "cleared env_ok"
  by (simp add: cleared_def env_ok_def)

lemma cleared_env_fail_first: "cleared env_fail_first"
  by (simp add: cleared_def env_ok_def env_fail_first_def)

lemma cleared_env_fail_second: "cleared env_fail_second"
  by (simp add: cleared_def env_ok_def env_fail_second_def)

lemma cleared_env_close_throws: "cleared env_close_throws"
  by (simp add: cleared_def env_ok_def env_close_throws_def)

lemma cleared_env_mixed: "cleared env_mixed"
  by (simp add: cleared_def env_mixed_def env_ok_def)

lemma cleared_env_empty: "cleared env_empty"
  by (simp add: cleared_def env_empty_def env_ok_def)

lemma cleared_env_unparsable: "cleared env_unparsable"
  by (simp add: cleared_def env_unparsable_def env_ok_def)

lemma cleared_env_unparsable_close_throws: "cleared env_unparsable_close_throws"
  by (simp add: cleared_def env_unparsable_close_throws_def env_unparsable_def env_ok_def)

lemma embed_and_write_env_ok:
  "embed_and_write env_ok i r =
     Inr (stored_document (with_summary r) (stub_embed (createFrontendPrincipleSummary r)))"
  by (simp add: embed_and_write_def env_ok_def)

lemma written_from_env_ok:
  "written_from env_ok n rs =
     map (\<lambda>r. stored_document (with_summary r) (stub_embed (createFrontendPrincipleSummary r))) rs"
proof (induction rs arbitrary: n)
  case Nil
  show ?case by (simp add: written_from_Nil)
next
  case (Cons r rs)
  then show ?case
    by (simp add: written_from_Cons step_ok_def document_of_def embed_and_write_env_ok)
qed

lemma written_env_ok:
  "written env_ok rs =
     map (\<lambda>r. stored_document (with_summary r) (stub_embed (createFrontendPrincipleSummary r))) rs"
  by (simp add: written_def written_from_env_ok)

subsection \<open>Claims about the run\<close>

text \<open>
  Claim C1, as the code has it. The loop has no handler of its own, so the first record
  whose embed-or-write step fails ends it. When the store was reached and cleared and
  the batch is \<open>pre @ r # post\<close>, with the step succeeding on every record of \<open>pre\<close> and
  failing with \<open>e\<close> on \<open>r\<close>: the collection holds exactly the documents of \<open>pre\<close>; the
  embedding capability is called on the summaries of \<open>pre\<close> and of \<open>r\<close> and on nothing
  else, and the store's insert on the documents of \<open>pre\<close> and, if the embedding of \<open>r\<close>
  succeeded, on the document of \<open>r\<close>, so that no record of \<open>post\<close> is attempted; the run
  writes exactly one error, \<open>e\<close>, to the console; and the promise of \<^verbatim>\<open>seedDatabase\<close>
  resolves unless \<^verbatim>\<open>client.close()\<close> itself throws: the record's error does not escape
  the call.
\<close>

theorem seedDatabase_stops_at_first_failure:
  assumes "cleared env"
    and "generation env = Inr (pre @ r # post)"
    and "\<forall>i<length pre. step_ok env i (pre ! i)"
    and "embed_and_write env (length pre) r = Inl e"
  shows "collection (snd (seedDatabase env s)) = documents env pre \<and>
         embed_calls (trace (snd (seedDatabase env s))) =
           embed_calls (trace s) @ map createFrontendPrincipleSummary (pre @ [r]) \<and>
         insert_calls (trace (snd (seedDatabase env s))) =
           insert_calls (trace s) @ documents env pre @
           (case embedDocuments env (length pre) (createFrontendPrincipleSummary r) of
              Inl x \<Rightarrow> []
            | Inr v \<Rightarrow> [stored_document (with_summary r) v]) \<and>
         errors_logged (trace (snd (seedDatabase env s))) = errors_logged (trace s) @ [e] \<and>
         fst (seedDatabase env s) = (case client_close env of None \<Rightarrow> Inr () | Some c \<Rightarrow> Inl c)"
proof -
  from assms(3) have ok: "\<forall>i<length pre. step_ok env (0 + i) (pre ! i)"
    by simp
  from assms(4) have bad: "\<not> step_ok env (0 + length pre) r"
    by (simp add: step_ok_def)
  from assms(4) have err: "embed_and_write env (0 + length pre) r = Inl e"
    by simp
  have c: "collection (snd (seedDatabase env s)) = documents env pre"
    using assms(1,2) written_from_prefix[OF ok bad, of post]
    by (simp add: seedDatabase_collection written_def documents_def)
  have em: "embed_calls (trace (snd (seedDatabase env s))) =
      embed_calls (trace s) @ map createFrontendPrincipleSummary (pre @ [r])"
    using assms(1,2) loop_embeds_prefix[OF ok bad, of post]
    by (simp add: seedDatabase_embed_calls)
  have ins: "insert_calls (trace (snd (seedDatabase env s))) =
      insert_calls (trace s) @ documents env pre @
      (case embedDocuments env (length pre) (createFrontendPrincipleSummary r) of
         Inl x \<Rightarrow> []
       | Inr v \<Rightarrow> [stored_document (with_summary r) v])"
    using assms(1,2) loop_inserts_prefix[OF ok bad, of post]
    by (simp add: seedDatabase_insert_calls documents_def)
  have "run_failure env = Some e"
    using assms(1,2) first_failure_from_prefix[OF ok err, of post]
    by (simp add: run_failure_def cleared_def first_failure_def)
  then have l: "errors_logged (trace (snd (seedDatabase env s))) = errors_logged (trace s) @ [e]"
    by (simp add: seedDatabase_errors_logged)
  from c em ins l seedDatabase_result[of env s] show ?thesis
    by simp
qed

text \<open>
  The theorem at a batch of three records in which the second embedding call fails, on
  a text that the first call embedded: the document of the first record stays written,
  the third record is not attempted, the embedding error is logged, the call resolves.
\<close>

theorem seedDatabase_stops_at_first_failure_witness:
  "collection (snd (seedDatabase env_fail_second s0)) =
     [stored_document (with_summary rec_a) (stub_embed (createFrontendPrincipleSummary rec_a))] \<and>
   embed_calls (trace (snd (seedDatabase env_fail_second s0))) =
     [createFrontendPrincipleSummary rec_a, createFrontendPrincipleSummary rec_a] \<and>
   insert_calls (trace (snd (seedDatabase env_fail_second s0))) =
     [stored_document (with_summary rec_a) (stub_embed (createFrontendPrincipleSummary rec_a))] \<and>
   errors_logged (trace (snd (seedDatabase env_fail_second s0))) = [EmbeddingError] \<and>
   fst (seedDatabase env_fail_second s0) = Inr ()"
proof -
  have g: "generation env_fail_second = Inr ([rec_a] @ rec_a # [rec_b])"
    by (simp add: generation_env_fail_second)
  have a: "embed_and_write env_fail_second 0 rec_a =
      Inr (stored_document (with_summary rec_a) (stub_embed (createFrontendPrincipleSummary rec_a)))"
    by (simp add: embed_and_write_def env_fail_second_def env_ok_def)
  then have p: "\<forall>i<length [rec_a]. step_ok env_fail_second i ([rec_a] ! i)"
    by (simp add: step_ok_def)
  have f: "embed_and_write env_fail_second (length [rec_a]) rec_a = Inl EmbeddingError"
    by (simp add: embed_and_write_def env_fail_second_def)
  have d: "documents env_fail_second [rec_a] =
      [stored_document (with_summary rec_a) (stub_embed (createFrontendPrincipleSummary rec_a))]"
    using a by (simp add: documents_def document_of_def)
  have e: "embedDocuments env_fail_second (length [rec_a]) (createFrontendPrincipleSummary rec_a) =
      Inl EmbeddingError"
    by (simp add: env_fail_second_def)
  show ?thesis
    using seedDatabase_stops_at_first_failure[OF cleared_env_fail_second g p f, of s0]
    by (simp add: d e) (simp add: s0_def env_fail_second_def env_ok_def)
qed

text \<open>
  Claim C1 as stated fails: in the batch \<open>[rec_a, rec_b]\<close> the embedding of \<open>rec_a\<close> fails
  and the step would succeed on \<open>rec_b\<close>, yet the run ends with an empty collection and
  never calls the embedding capability on the summary of \<open>rec_b\<close>.
\<close>

theorem seedDatabase_abandons_later_records:
  "generation env_fail_first = Inr [rec_a, rec_b] \<and>
   embed_and_write env_fail_first 0 rec_a = Inl EmbeddingError \<and>
   step_ok env_fail_first 1 rec_b \<and>
   collection (snd (seedDatabase env_fail_first s0)) = [] \<and>
   Embed (createFrontendPrincipleSummary rec_b) \<notin> set (trace (snd (seedDatabase env_fail_first s0)))"
proof -
  have f: "embed_and_write env_fail_first 0 rec_a = Inl EmbeddingError"
    by (simp add: embed_and_write_def env_fail_first_def)
  have ok: "step_ok env_fail_first 1 rec_b"
    by (simp add: step_ok_def embed_and_write_def env_fail_first_def env_ok_def)
  have c: "collection (snd (seedDatabase env_fail_first s0)) = []"
    using f by (simp add: seedDatabase_collection cleared_env_fail_first
        generation_env_fail_first written_def written_from_Cons step_ok_def)
  have t: "trace (snd (seedDatabase env_fail_first s0)) =
      [Connect, Ping,
       ConsoleLog ''Pinged your deployment. You successfully connected to MongoDB!'',
       DeleteMany,
       ConsoleLog ''Generating synthetic frontend principles data...'',
       Invoke (prompt ''format''),
       Embed (createFrontendPrincipleSummary rec_a),
       ConsoleError ''Error seeding database:'' EmbeddingError, Close]"
    using generation_env_fail_first
    by (simp add: seedDatabase_def try_block_def generateSyntheticData_eq write_loop.simps
        fromDocuments_def with_summary_def emit_def s0_def env_fail_first_def env_ok_def Let_def)
  have "createFrontendPrincipleSummary rec_b \<noteq> createFrontendPrincipleSummary rec_a"
    by (simp add: createFrontendPrincipleSummary_def rec_a_def rec_b_def)
  with t have "Embed (createFrontendPrincipleSummary rec_b) \<notin> set (trace (snd (seedDatabase env_fail_first s0)))"
    by simp
  with generation_env_fail_first f ok c show ?thesis by simp
qed

text \<open>
  Claim C2, as the code has it. \<^verbatim>\<open>seedDatabase\<close> takes no mode: every run that reaches
  the store deletes all documents before it inserts. Whatever the collection held, a run
  whose connect, ping and delete complete leaves exactly the documents that run wrote;
  a run after another run (of any world \<open>env'\<close>) leaves exactly its own documents too.
\<close>

theorem seedDatabase_always_replaces:
  assumes "cleared env"
  shows "collection (snd (seedDatabase env s)) =
           (case generation env of Inl e \<Rightarrow> [] | Inr rs \<Rightarrow> written env rs) \<and>
         collection (snd (seedDatabase env (snd (seedDatabase env' s)))) =
           (case generation env of Inl e \<Rightarrow> [] | Inr rs \<Rightarrow> written env rs)"
  using assms by (simp add: seedDatabase_collection)

text \<open>The theorem at the world in which every call completes.\<close>

theorem seedDatabase_always_replaces_witness:
  "collection (snd (seedDatabase env_ok s0)) = written env_ok [rec_a, rec_b] \<and>
   collection (snd (seedDatabase env_ok (snd (seedDatabase env_ok s0)))) = written env_ok [rec_a, rec_b]"
  using seedDatabase_always_replaces[OF cleared_env_ok, of s0 env_ok]
  by (simp add: generation_env_ok)

text \<open>
  Claim C2 as stated fails: after two runs on a collection of one unrelated document the
  collection holds the two documents of the second run, not the pre-existing document
  followed by the writes of both runs.
\<close>

theorem seedDatabase_twice_keeps_one_run:
  "length (collection s0) = 1 \<and>
   length (written env_ok [rec_a, rec_b]) = 2 \<and>
   collection (snd (seedDatabase env_ok (snd (seedDatabase env_ok s0)))) = written env_ok [rec_a, rec_b] \<and>
   collection (snd (seedDatabase env_ok (snd (seedDatabase env_ok s0)))) \<noteq>
     collection s0 @ written env_ok [rec_a, rec_b] @ written env_ok [rec_a, rec_b]"
proof -
  have c: "collection (snd (seedDatabase env_ok (snd (seedDatabase env_ok s0)))) = written env_ok [rec_a, rec_b]"
    by (simp add: seedDatabase_collection cleared_env_ok generation_env_ok)
  have l: "length (written env_ok [rec_a, rec_b]) = 2"
    by (simp add: written_env_ok)
  have "length (written env_ok [rec_a, rec_b]) \<noteq>
      length (collection s0 @ written env_ok [rec_a, rec_b] @ written env_ok [rec_a, rec_b])"
    by (simp add: l s0_def)
  then have "written env_ok [rec_a, rec_b] \<noteq>
      collection s0 @ written env_ok [rec_a, rec_b] @ written env_ok [rec_a, rec_b]"
    by (auto dest: arg_cong[where f = length])
  with c l show ?thesis by (simp add: s0_def)
qed

text \<open>
  Claim C3. In a run that reached and cleared the store, every document of the
  collection is one the run wrote, and it is paired: the document at position \<open>i\<close> has
  as its stored text the summary of the record it carries, and as its stored vector
  what the embedding capability returned, at the call made for it, on exactly that
  stored text. With a stub capability \<open>hash\<close>, the stored vector is \<open>hash\<close> of the stored
  text. A run that did not reach or clear the store wrote nothing.
\<close>

theorem seedDatabase_pairing:
  "(cleared env \<longrightarrow>
      (\<forall>i<length (collection (snd (seedDatabase env s))).
         paired env i (collection (snd (seedDatabase env s)) ! i) \<and>
         (\<forall>hash. embedDocuments env = (\<lambda>i t. Inr (hash t)) \<longrightarrow>
            (\<exists>t. stored_text (collection (snd (seedDatabase env s)) ! i) = Some t \<and>
                 stored_vector (collection (snd (seedDatabase env s)) ! i) =
                   Some (vector_json (hash t)))))) \<and>
   (\<not> cleared env \<longrightarrow> collection (snd (seedDatabase env s)) = collection s)"
proof (intro conjI impI allI)
  fix i
  assume c: "cleared env" and i: "i < length (collection (snd (seedDatabase env s)))"
  show p: "paired env i (collection (snd (seedDatabase env s)) ! i)"
  proof (cases "generation env")
    case (Inl e)
    with c i show ?thesis
      by (simp add: seedDatabase_collection)
  next
    case (Inr rs)
    with c i show ?thesis
      by (simp add: seedDatabase_collection paired_written)
  qed
  fix hash
  assume "embedDocuments env = (\<lambda>i t. Inr (hash t))"
  with p show "\<exists>t. stored_text (collection (snd (seedDatabase env s)) ! i) = Some t \<and>
      stored_vector (collection (snd (seedDatabase env s)) ! i) = Some (vector_json (hash t))"
    by (rule paired_stub)
next
  assume "\<not> cleared env"
  then show "collection (snd (seedDatabase env s)) = collection s"
    by (simp add: seedDatabase_collection)
qed

text \<open>The theorem at the run of two records, with the length stub as embedding.\<close>

theorem seedDatabase_pairing_witness:
  "collection (snd (seedDatabase env_ok s0)) =
     [stored_document (with_summary rec_a) (stub_embed (createFrontendPrincipleSummary rec_a)),
      stored_document (with_summary rec_b) (stub_embed (createFrontendPrincipleSummary rec_b))] \<and>
   paired env_ok 0 (stored_document (with_summary rec_a) (stub_embed (createFrontendPrincipleSummary rec_a))) \<and>
   stored_vector (stored_document (with_summary rec_b) (stub_embed (createFrontendPrincipleSummary rec_b))) =
     Some (vector_json (stub_embed (createFrontendPrincipleSummary rec_b)))"
proof -
  have c: "collection (snd (seedDatabase env_ok s0)) =
     [stored_document (with_summary rec_a) (stub_embed (createFrontendPrincipleSummary rec_a)),
      stored_document (with_summary rec_b) (stub_embed (createFrontendPrincipleSummary rec_b))]"
    by (simp add: seedDatabase_collection cleared_env_ok generation_env_ok written_env_ok)
  have e: "embedDocuments env_ok = (\<lambda>i t. Inr (stub_embed t))"
    by (simp add: env_ok_def)
  from seedDatabase_pairing[of env_ok s0] cleared_env_ok
  have all: "\<forall>i<length (collection (snd (seedDatabase env_ok s0))).
         paired env_ok i (collection (snd (seedDatabase env_ok s0)) ! i) \<and>
         (\<forall>hash. embedDocuments env_ok = (\<lambda>i t. Inr (hash t)) \<longrightarrow>
            (\<exists>t. stored_text (collection (snd (seedDatabase env_ok s0)) ! i) = Some t \<and>
                 stored_vector (collection (snd (seedDatabase env_ok s0)) ! i) =
                   Some (vector_json (hash t))))"
    by blast
  from all c have a: "paired env_ok 0
      (stored_document (with_summary rec_a) (stub_embed (createFrontendPrincipleSummary rec_a)))"
    by (auto dest: spec[where x = 0])
  from all c e have "\<exists>t. stored_text (stored_document (with_summary rec_b)
        (stub_embed (createFrontendPrincipleSummary rec_b))) = Some t \<and>
       stored_vector (stored_document (with_summary rec_b)
        (stub_embed (createFrontendPrincipleSummary rec_b))) = Some (vector_json (stub_embed t))"
    by (auto dest!: spec[where x = 1])
  then have "stored_vector (stored_document (with_summary rec_b) (stub_embed (createFrontendPrincipleSummary rec_b))) =
     Some (vector_json (stub_embed (createFrontendPrincipleSummary rec_b)))"
    by (simp add: stored_text_stored_document)
  with c a show ?thesis by simp
qed




text \<open>
  Claim C10, as the code has it. In every run the model is called only after connect,
  ping and \<^verbatim>\<open>deleteMany\<close> have completed, and once: a run that reaches and clears the
  store starts with connect, ping, delete and the model call, in this order, and a run
  that does not never calls the model. When the store is cleared and the generation
  fails (the model call throws or its answer does not parse), the run is exactly
  connect, ping, delete, the model call, the logging of the error, close: the collection
  is left empty, whatever it held, nothing is embedded or inserted, and the promise
  resolves unless \<^verbatim>\<open>client.close()\<close> itself throws, in which case it rejects with that
  exception.
\<close>

theorem seedDatabase_clears_before_generating:
  "(cleared env \<longrightarrow>
      (\<exists>rest. trace (snd (seedDatabase env s)) =
           trace s @
           [Connect, Ping,
            ConsoleLog ''Pinged your deployment. You successfully connected to MongoDB!'',
            DeleteMany,
            ConsoleLog ''Generating synthetic frontend principles data...'',
            Invoke (prompt (getFormatInstructions env))] @ rest \<and>
         invoke_calls rest = [])) \<and>
   (\<not> cleared env \<longrightarrow>
      invoke_calls (trace (snd (seedDatabase env s))) = invoke_calls (trace s)) \<and>
   (\<forall>e. cleared env \<longrightarrow> generation env = Inl e \<longrightarrow>
      collection (snd (seedDatabase env s)) = [] \<and>
      trace (snd (seedDatabase env s)) =
        trace s @
        [Connect, Ping,
         ConsoleLog ''Pinged your deployment. You successfully connected to MongoDB!'',
         DeleteMany,
         ConsoleLog ''Generating synthetic frontend principles data...'',
         Invoke (prompt (getFormatInstructions env)),
         ConsoleError ''Error seeding database:'' e, Close] \<and>
      fst (seedDatabase env s) = (case client_close env of None \<Rightarrow> Inr () | Some c \<Rightarrow> Inl c))"
proof (intro conjI impI allI)
  assume "cleared env"
  then show "\<exists>rest. trace (snd (seedDatabase env s)) =
           trace s @
           [Connect, Ping,
            ConsoleLog ''Pinged your deployment. You successfully connected to MongoDB!'',
            DeleteMany,
            ConsoleLog ''Generating synthetic frontend principles data...'',
            Invoke (prompt (getFormatInstructions env))] @ rest \<and>
         invoke_calls rest = []"
    by (rule seedDatabase_trace_cleared)
next
  assume "\<not> cleared env"
  then show "invoke_calls (trace (snd (seedDatabase env s))) = invoke_calls (trace s)"
    by (rule seedDatabase_invoke_calls_not_cleared)
next
  fix e
  assume c: "cleared env" and g: "generation env = Inl e"
  from c g show "collection (snd (seedDatabase env s)) = []"
    by (simp add: seedDatabase_collection)
  from c g show "trace (snd (seedDatabase env s)) =
        trace s @
        [Connect, Ping,
         ConsoleLog ''Pinged your deployment. You successfully connected to MongoDB!'',
         DeleteMany,
         ConsoleLog ''Generating synthetic frontend principles data...'',
         Invoke (prompt (getFormatInstructions env)),
         ConsoleError ''Error seeding database:'' e, Close]"
    by (rule seedDatabase_trace_generation_fails)
  show "fst (seedDatabase env s) = (case client_close env of None \<Rightarrow> Inr () | Some c \<Rightarrow> Inl c)"
    by (rule seedDatabase_result)
qed

text \<open>
  The theorem at a collection of one document and a model answer that is no JSON, and at
  a store that cannot be reached.
\<close>

theorem seedDatabase_clears_before_generating_witness:
  "collection s0 = [[(''title'', JStr ''unrelated'')]] \<and>
   collection (snd (seedDatabase env_unparsable s0)) = [] \<and>
   trace (snd (seedDatabase env_unparsable s0)) =
     [Connect, Ping,
      ConsoleLog ''Pinged your deployment. You successfully connected to MongoDB!'',
      DeleteMany,
      ConsoleLog ''Generating synthetic frontend principles data...'',
      Invoke (prompt ''format''),
      ConsoleError ''Error seeding database:'' OutputParserException, Close] \<and>
   fst (seedDatabase env_unparsable s0) = Inr () \<and>
   invoke_calls (trace (snd (seedDatabase env_unreachable s0))) = []"
proof -
  have u: "\<not> cleared env_unreachable"
    by (simp add: cleared_def env_unreachable_def env_ok_def)
  from seedDatabase_clears_before_generating[of env_unparsable s0]
    cleared_env_unparsable generation_env_unparsable
  have "collection (snd (seedDatabase env_unparsable s0)) = [] \<and>
      trace (snd (seedDatabase env_unparsable s0)) =
        trace s0 @
        [Connect, Ping,
         ConsoleLog ''Pinged your deployment. You successfully connected to MongoDB!'',
         DeleteMany,
         ConsoleLog ''Generating synthetic frontend principles data...'',
         Invoke (prompt (getFormatInstructions env_unparsable)),
         ConsoleError ''Error seeding database:'' OutputParserException, Close] \<and>
      fst (seedDatabase env_unparsable s0) =
        (case client_close env_unparsable of None \<Rightarrow> Inr () | Some c \<Rightarrow> Inl c)"
    by blast
  moreover from seedDatabase_clears_before_generating[of env_unreachable s0] u
  have "invoke_calls (trace (snd (seedDatabase env_unreachable s0))) = invoke_calls (trace s0)"
    by blast
  ultimately show ?thesis
    by (simp add: s0_def env_unparsable_def env_ok_def)
qed

text \<open>
  Claim C10 as stated fails: the answer of the model is no JSON and \<^verbatim>\<open>client.close()\<close>
  throws; the collection is cleared and left empty, but the seed call does not return:
  its promise rejects with the exception of \<^verbatim>\<open>client.close()\<close>.
\<close>

theorem seedDatabase_generation_fails_close_throws:
  "cleared env_unparsable_close_throws \<and>
   generation env_unparsable_close_throws = Inl OutputParserException \<and>
   client_close env_unparsable_close_throws = Some CloseError \<and>
   collection (snd (seedDatabase env_unparsable_close_throws s0)) = [] \<and>
   fst (seedDatabase env_unparsable_close_throws s0) = Inl CloseError"
proof -
  have c: "client_close env_unparsable_close_throws = Some CloseError"
    by (simp add: env_unparsable_close_throws_def)
  have e: "collection (snd (seedDatabase env_unparsable_close_throws s0)) = []"
    by (simp add: seedDatabase_collection cleared_env_unparsable_close_throws
        generation_env_unparsable_close_throws)
  from c e cleared_env_unparsable_close_throws generation_env_unparsable_close_throws
  show ?thesis
    by (simp add: seedDatabase_result)
qed

text \<open>
  Claim C5, as the code has it. The elements of the array are validated one by one by
  the record schema, but the array is accepted only as a whole: when every element
  passes, the parser returns the parsed elements in order; when any element fails, the
  parser throws one exception and returns no element, the well-formed siblings included.
\<close>

theorem parser_parse_all_or_nothing:
  assumes "json_parse env txt = Some (JArr js)"
  shows "((\<forall>j\<in>set js. valid j) \<longrightarrow>
            (\<exists>rs. parser_parse env txt = Inr rs \<and> map FrontendPrincipleSchema js = map Inr rs)) \<and>
         ((\<exists>j\<in>set js. \<not> valid j) \<longrightarrow> parser_parse env txt = Inl OutputParserException)"
proof (intro conjI impI)
  assume "\<forall>j\<in>set js. valid j"
  then obtain rs where rs: "collect (map FrontendPrincipleSchema js) = Inr rs"
    using collect_all_valid by blast
  then have "map FrontendPrincipleSchema js = map Inr rs"
    by (simp add: collect_InrD)
  with rs show "\<exists>rs. parser_parse env txt = Inr rs \<and> map FrontendPrincipleSchema js = map Inr rs"
    by (auto simp: parser_parse_array[OF assms])
next
  assume "\<exists>j\<in>set js. \<not> valid j"
  then obtain j where j: "j \<in> set js" and "\<not> valid j"
    by blast
  then obtain e where "FrontendPrincipleSchema j = Inl e"
    by (cases "FrontendPrincipleSchema j") (simp_all add: valid_def)
  with j have "Inl e \<in> set (map FrontendPrincipleSchema js)"
    by force
  then obtain e' where "collect (map FrontendPrincipleSchema js) = Inl e'"
    using collect_Inl by blast
  then show "parser_parse env txt = Inl OutputParserException"
    by (simp add: parser_parse_array[OF assms])
qed

text \<open>
  The theorem at an array of one well-formed record and one object whose \<^verbatim>\<open>name\<close> is
  a number, and at an array of two well-formed records.
\<close>

theorem parser_parse_all_or_nothing_witness:
  "valid (JObj (object_of rec_a)) \<and>
   \<not> valid (JObj [(''name'', JNum 42)]) \<and>
   parser_parse env_ok ''one good, one bad'' = Inl OutputParserException \<and>
   parser_parse env_ok ''two records'' = Inr [rec_a, rec_b]"
proof -
  have m: "json_parse env_ok ''one good, one bad'' =
      Some (JArr [JObj (object_of rec_a), JObj [(''name'', JNum 42)]])"
    by (simp add: env_ok_def stub_parse_def)
  have bad: "\<exists>j\<in>set [JObj (object_of rec_a), JObj [(''name'', JNum 42)]]. \<not> valid j"
    using not_valid_number_name by simp
  have t: "json_parse env_ok ''two records'' = Some (JArr [JObj (object_of rec_a), JObj (object_of rec_b)])"
    by (simp add: env_ok_def stub_parse_def)
  have good: "\<forall>j\<in>set [JObj (object_of rec_a), JObj (object_of rec_b)]. valid j"
    by (simp add: valid_object_of)
  from parser_parse_all_or_nothing[OF t] good
  have "parser_parse env_ok ''two records'' = Inr [rec_a, rec_b]"
    by (auto simp: FrontendPrincipleSchema_object_of)
  with parser_parse_all_or_nothing[OF m] bad valid_object_of not_valid_number_name
  show ?thesis by blast
qed

text \<open>
  Claim C5 as stated fails: \<open>rec_a\<close> passes the schema, its sibling does not, and the
  generation throws; the run clears the collection, writes nothing and logs the parser's
  exception.
\<close>

theorem parser_parse_rejects_valid_sibling:
  "FrontendPrincipleSchema (JObj (object_of rec_a)) = Inr rec_a \<and>
   json_parse env_mixed ''one good, one bad'' =
     Some (JArr [JObj (object_of rec_a), JObj [(''name'', JNum 42)]]) \<and>
   fst (generateSyntheticData env_mixed s0) = Inl OutputParserException \<and>
   collection (snd (seedDatabase env_mixed s0)) = [] \<and>
   errors_logged (trace (snd (seedDatabase env_mixed s0))) = [OutputParserException]"
proof -
  have p: "json_parse env_mixed ''one good, one bad'' =
     Some (JArr [JObj (object_of rec_a), JObj [(''name'', JNum 42)]])"
    by (simp add: env_mixed_def env_ok_def stub_parse_def)
  have g: "fst (generateSyntheticData env_mixed s0) = Inl OutputParserException"
    by (simp add: generateSyntheticData_eq generation_env_mixed)
  have c: "collection (snd (seedDatabase env_mixed s0)) = []"
    by (simp add: seedDatabase_collection cleared_env_mixed generation_env_mixed)
  have "run_failure env_mixed = Some OutputParserException"
    using cleared_env_mixed by (simp add: run_failure_def cleared_def generation_env_mixed)
  then have l: "errors_logged (trace (snd (seedDatabase env_mixed s0))) = [OutputParserException]"
    by (simp add: seedDatabase_errors_logged s0_def)
  from p g c l show ?thesis
    by (simp add: FrontendPrincipleSchema_object_of)
qed

text \<open>
  Claim C4 as stated fails: an answer that parses to the empty array holds zero valid
  records, and the generation succeeds with the empty batch; the run completes without
  an error.
\<close>

theorem generateSyntheticData_accepts_empty_array:
  "llm_invoke env_empty (prompt (getFormatInstructions env_empty)) = Inr ''[]'' \<and>
   json_parse env_empty ''[]'' = Some (JArr []) \<and>
   fst (generateSyntheticData env_empty s0) = Inr [] \<and>
   collection (snd (seedDatabase env_empty s0)) = [] \<and>
   errors_logged (trace (snd (seedDatabase env_empty s0))) = []"
proof -
  have i: "llm_invoke env_empty (prompt (getFormatInstructions env_empty)) = Inr ''[]''"
    by (simp add: env_empty_def env_ok_def)
  have p: "json_parse env_empty ''[]'' = Some (JArr [])"
    by (simp add: env_empty_def env_ok_def stub_parse_def)
  have g: "fst (generateSyntheticData env_empty s0) = Inr []"
    by (simp add: generateSyntheticData_eq generation_env_empty)
  have c: "collection (snd (seedDatabase env_empty s0)) = []"
    by (simp add: seedDatabase_collection cleared_env_empty generation_env_empty written_def
        written_from_Nil)
  have "run_failure env_empty = None"
    using cleared_env_empty
    by (simp add: run_failure_def cleared_def generation_env_empty first_failure_def
        first_failure_from_Nil)
  then have l: "errors_logged (trace (snd (seedDatabase env_empty s0))) = []"
    by (simp add: seedDatabase_errors_logged s0_def)
  from i p g c l show ?thesis by simp
qed

text \<open>
  Claim C4, as the code has it. When the model answers \<open>txt\<close>: if \<open>txt\<close> is not JSON, or
  is JSON but not an array all of whose elements pass the record schema, the generation
  throws the parser's exception; if \<open>txt\<close> is the empty array, the generation succeeds
  with the empty batch. An exception \<open>e\<close> of the generation ends the work of the run: in
  a run that cleared the store, the run is exactly connect, ping, delete, the model call,
  the logging of \<open>e\<close>, close, so nothing is embedded or inserted and the collection stays
  empty. On the empty array such a run is exactly connect, ping, delete, the model call,
  the closing log line, close: it completes with nothing embedded or inserted and the
  collection empty. In both cases the promise resolves unless \<^verbatim>\<open>client.close()\<close> itself
  throws, in which case it rejects with that exception.
\<close>

theorem generateSyntheticData_failure_policy:
  assumes "llm_invoke env (prompt (getFormatInstructions env)) = Inr txt"
  shows "(json_parse env txt = None \<longrightarrow>
            fst (generateSyntheticData env s) = Inl OutputParserException) \<and>
         (\<forall>j. json_parse env txt = Some j \<longrightarrow> \<not> valid_batch j \<longrightarrow>
            fst (generateSyntheticData env s) = Inl OutputParserException) \<and>
         (json_parse env txt = Some (JArr []) \<longrightarrow> fst (generateSyntheticData env s) = Inr []) \<and>
         (\<forall>e. fst (generateSyntheticData env s) = Inl e \<longrightarrow> cleared env \<longrightarrow>
            collection (snd (seedDatabase env s)) = [] \<and>
            errors_logged (trace (snd (seedDatabase env s))) = errors_logged (trace s) @ [e] \<and>
            trace (snd (seedDatabase env s)) =
              trace s @
              [Connect, Ping,
               ConsoleLog ''Pinged your deployment. You successfully connected to MongoDB!'',
               DeleteMany,
               ConsoleLog ''Generating synthetic frontend principles data...'',
               Invoke (prompt (getFormatInstructions env)),
               ConsoleError ''Error seeding database:'' e, Close] \<and>
            fst (seedDatabase env s) = (case client_close env of None \<Rightarrow> Inr () | Some c \<Rightarrow> Inl c)) \<and>
         (json_parse env txt = Some (JArr []) \<longrightarrow> cleared env \<longrightarrow>
            collection (snd (seedDatabase env s)) = [] \<and>
            errors_logged (trace (snd (seedDatabase env s))) = errors_logged (trace s) \<and>
            trace (snd (seedDatabase env s)) =
              trace s @
              [Connect, Ping,
               ConsoleLog ''Pinged your deployment. You successfully connected to MongoDB!'',
               DeleteMany,
               ConsoleLog ''Generating synthetic frontend principles data...'',
               Invoke (prompt (getFormatInstructions env)),
               ConsoleLog ''Database seeding completed'', Close] \<and>
            fst (seedDatabase env s) = (case client_close env of None \<Rightarrow> Inr () | Some c \<Rightarrow> Inl c))"
proof -
  have g: "fst (generateSyntheticData env s) = parser_parse env txt"
    using assms by (simp add: generateSyntheticData_eq generation_def bindE_def)
  have gen: "fst (generateSyntheticData env s) = generation env"
    by (simp add: generateSyntheticData_eq)
  have 1: "json_parse env txt = None \<longrightarrow> fst (generateSyntheticData env s) = Inl OutputParserException"
    by (simp add: g parser_parse_def)
  have 2: "\<forall>j. json_parse env txt = Some j \<longrightarrow> \<not> valid_batch j \<longrightarrow>
      fst (generateSyntheticData env s) = Inl OutputParserException"
    by (simp add: g parser_parse_invalid_batch)
  have 3: "json_parse env txt = Some (JArr []) \<longrightarrow> fst (generateSyntheticData env s) = Inr []"
    by (simp add: g parser_parse_def)
  have 4: "\<forall>e. fst (generateSyntheticData env s) = Inl e \<longrightarrow> cleared env \<longrightarrow>
      collection (snd (seedDatabase env s)) = [] \<and>
      errors_logged (trace (snd (seedDatabase env s))) = errors_logged (trace s) @ [e] \<and>
      trace (snd (seedDatabase env s)) =
        trace s @
        [Connect, Ping,
         ConsoleLog ''Pinged your deployment. You successfully connected to MongoDB!'',
         DeleteMany,
         ConsoleLog ''Generating synthetic frontend principles data...'',
         Invoke (prompt (getFormatInstructions env)),
         ConsoleError ''Error seeding database:'' e, Close] \<and>
      fst (seedDatabase env s) = (case client_close env of None \<Rightarrow> Inr () | Some c \<Rightarrow> Inl c)"
  proof (intro allI impI)
    fix e
    assume "fst (generateSyntheticData env s) = Inl e" and c: "cleared env"
    then have ge: "generation env = Inl e"
      by (simp add: gen)
    from c ge have "run_failure env = Some e"
      by (simp add: run_failure_def cleared_def)
    then have "errors_logged (trace (snd (seedDatabase env s))) = errors_logged (trace s) @ [e]"
      by (simp add: seedDatabase_errors_logged)
    moreover from c ge have "collection (snd (seedDatabase env s)) = []"
      by (simp add: seedDatabase_collection)
    moreover note seedDatabase_trace_generation_fails[OF c ge, of s] seedDatabase_result[of env s]
    ultimately show "collection (snd (seedDatabase env s)) = [] \<and>
      errors_logged (trace (snd (seedDatabase env s))) = errors_logged (trace s) @ [e] \<and>
      trace (snd (seedDatabase env s)) =
        trace s @
        [Connect, Ping,
         ConsoleLog ''Pinged your deployment. You successfully connected to MongoDB!'',
         DeleteMany,
         ConsoleLog ''Generating synthetic frontend principles data...'',
         Invoke (prompt (getFormatInstructions env)),
         ConsoleError ''Error seeding database:'' e, Close] \<and>
      fst (seedDatabase env s) = (case client_close env of None \<Rightarrow> Inr () | Some c \<Rightarrow> Inl c)"
      by blast
  qed
  have 5: "json_parse env txt = Some (JArr []) \<longrightarrow> cleared env \<longrightarrow>
      collection (snd (seedDatabase env s)) = [] \<and>
      errors_logged (trace (snd (seedDatabase env s))) = errors_logged (trace s) \<and>
      trace (snd (seedDatabase env s)) =
        trace s @
        [Connect, Ping,
         ConsoleLog ''Pinged your deployment. You successfully connected to MongoDB!'',
         DeleteMany,
         ConsoleLog ''Generating synthetic frontend principles data...'',
         Invoke (prompt (getFormatInstructions env)),
         ConsoleLog ''Database seeding completed'', Close] \<and>
      fst (seedDatabase env s) = (case client_close env of None \<Rightarrow> Inr () | Some c \<Rightarrow> Inl c)"
  proof (intro impI)
    assume "json_parse env txt = Some (JArr [])" and c: "cleared env"
    with 3 have ge: "generation env = Inr []"
      by (simp add: gen[symmetric])
    from c ge have "run_failure env = None"
      by (simp add: run_failure_def cleared_def first_failure_def first_failure_from_Nil)
    then have "errors_logged (trace (snd (seedDatabase env s))) = errors_logged (trace s)"
      by (simp add: seedDatabase_errors_logged)
    moreover from c ge have "collection (snd (seedDatabase env s)) = []"
      by (simp add: seedDatabase_collection written_def written_from_Nil)
    moreover note seedDatabase_trace_empty_batch[OF c ge, of s] seedDatabase_result[of env s]
    ultimately show "collection (snd (seedDatabase env s)) = [] \<and>
      errors_logged (trace (snd (seedDatabase env s))) = errors_logged (trace s) \<and>
      trace (snd (seedDatabase env s)) =
        trace s @
        [Connect, Ping,
         ConsoleLog ''Pinged your deployment. You successfully connected to MongoDB!'',
         DeleteMany,
         ConsoleLog ''Generating synthetic frontend principles data...'',
         Invoke (prompt (getFormatInstructions env)),
         ConsoleLog ''Database seeding completed'', Close] \<and>
      fst (seedDatabase env s) = (case client_close env of None \<Rightarrow> Inr () | Some c \<Rightarrow> Inl c)"
      by blast
  qed
  from 1 2 3 4 5 show ?thesis by blast
qed

text \<open>The theorem at an answer that is no JSON and at the empty array.\<close>

theorem generateSyntheticData_failure_policy_witness:
  "fst (generateSyntheticData env_unparsable s0) = Inl OutputParserException \<and>
   collection (snd (seedDatabase env_unparsable s0)) = [] \<and>
   errors_logged (trace (snd (seedDatabase env_unparsable s0))) = [OutputParserException] \<and>
   embed_calls (trace (snd (seedDatabase env_unparsable s0))) = [] \<and>
   fst (seedDatabase env_unparsable s0) = Inr () \<and>
   fst (generateSyntheticData env_empty s0) = Inr [] \<and>
   trace (snd (seedDatabase env_empty s0)) =
     [Connect, Ping,
      ConsoleLog ''Pinged your deployment. You successfully connected to MongoDB!'',
      DeleteMany,
      ConsoleLog ''Generating synthetic frontend principles data...'',
      Invoke (prompt ''format''),
      ConsoleLog ''Database seeding completed'', Close]"
proof -
  have u: "llm_invoke env_unparsable (prompt (getFormatInstructions env_unparsable)) =
      Inr ''I cannot help with that.''"
    by (simp add: env_unparsable_def env_ok_def)
  have n: "json_parse env_unparsable ''I cannot help with that.'' = None"
    by (simp add: env_unparsable_def env_ok_def stub_parse_def)
  have e: "llm_invoke env_empty (prompt (getFormatInstructions env_empty)) = Inr ''[]''"
    by (simp add: env_empty_def env_ok_def)
  have a: "json_parse env_empty ''[]'' = Some (JArr [])"
    by (simp add: env_empty_def env_ok_def stub_parse_def)
  from generateSyntheticData_failure_policy[OF u, of s0] n cleared_env_unparsable
  have "fst (generateSyntheticData env_unparsable s0) = Inl OutputParserException \<and>
     collection (snd (seedDatabase env_unparsable s0)) = [] \<and>
     errors_logged (trace (snd (seedDatabase env_unparsable s0))) =
       errors_logged (trace s0) @ [OutputParserException] \<and>
     trace (snd (seedDatabase env_unparsable s0)) =
       trace s0 @
       [Connect, Ping,
        ConsoleLog ''Pinged your deployment. You successfully connected to MongoDB!'',
        DeleteMany,
        ConsoleLog ''Generating synthetic frontend principles data...'',
        Invoke (prompt (getFormatInstructions env_unparsable)),
        ConsoleError ''Error seeding database:'' OutputParserException, Close] \<and>
     fst (seedDatabase env_unparsable s0) =
       (case client_close env_unparsable of None \<Rightarrow> Inr () | Some c \<Rightarrow> Inl c)"
    by blast
  moreover from generateSyntheticData_failure_policy[OF e, of s0] a cleared_env_empty
  have "fst (generateSyntheticData env_empty s0) = Inr [] \<and>
     trace (snd (seedDatabase env_empty s0)) =
       trace s0 @
       [Connect, Ping,
        ConsoleLog ''Pinged your deployment. You successfully connected to MongoDB!'',
        DeleteMany,
        ConsoleLog ''Generating synthetic frontend principles data...'',
        Invoke (prompt (getFormatInstructions env_empty)),
        ConsoleLog ''Database seeding completed'', Close]"
    by blast
  ultimately show ?thesis
    by (simp add: s0_def env_unparsable_def env_empty_def env_ok_def)
qed

section \<open>The schema\<close>

lemma field_string_if:
  "field kvs k z_string =
     (if is_str (map_of kvs k) then Inr (the_str (map_of kvs k)) else Inl ZodError)"
proof (cases "map_of kvs k")
  case None
  then show ?thesis by (simp add: field_def)
next
  case (Some v)
  then show ?thesis by (cases v) (simp_all add: field_def)
qed

lemma collect_strings_if:
  "collect (map z_string xs) =
     (if list_all is_JStr xs then Inr (map the_JStr xs) else Inl ZodError)"
proof (induction xs)
  case Nil
  show ?case by simp
next
  case (Cons x xs)
  then show ?case by (cases x) simp_all
qed

lemma field_strings_if:
  "field kvs k (z_array z_string) =
     (if is_strs (map_of kvs k) then Inr (the_strs (map_of kvs k)) else Inl ZodError)"
proof (cases "map_of kvs k")
  case None
  then show ?thesis by (simp add: field_def)
next
  case (Some v)
  then show ?thesis by (cases v) (simp_all add: field_def collect_strings_if)
qed

lemma is_str_eq: "is_str x \<Longrightarrow> x = Some (JStr (the_str x))"
  by (induction x rule: is_str.induct) simp_all

lemma is_JStr_eq: "is_JStr j \<Longrightarrow> JStr (the_JStr j) = j"
  by (cases j) simp_all

lemma is_strs_eq: "is_strs x \<Longrightarrow> x = Some (strs (the_strs x))"
proof (induction x rule: is_strs.induct)
  case (1 xs)
  then have "map (JStr \<circ> the_JStr) xs = xs"
    by (induction xs) (simp_all add: is_JStr_eq)
  then show ?case by (simp add: strs_def)
qed simp_all

lemma FrontendPrincipleSchema_if:
  "FrontendPrincipleSchema (JObj kvs) =
     (if conforms (JObj kvs)
      then Inr \<lparr> principle_id = the_str (map_of kvs ''principle_id''),
                 name = the_str (map_of kvs ''name''),
                 description = the_str (map_of kvs ''description''),
                 keyConcepts = the_strs (map_of kvs ''keyConcepts''),
                 designGuidelines = the_strs (map_of kvs ''designGuidelines''),
                 commonPitfalls = the_strs (map_of kvs ''commonPitfalls''),
                 bestPractices = the_strs (map_of kvs ''bestPractices''),
                 relevantTechnologies = the_strs (map_of kvs ''relevantTechnologies''),
                 notes' = the_str (map_of kvs ''notes'') \<rparr>
      else Inl ZodError)"
  by (simp add: FrontendPrincipleSchema.simps field_string_if field_strings_if bindE_def)

lemma object_of_members:
  assumes "conforms (JObj kvs)"
    and "FrontendPrincipleSchema (JObj kvs) = Inr r"
  shows "map_of (object_of r) = map_of kvs |` set schema_keys"
proof
  fix k
  from assms have r: "r = \<lparr> principle_id = the_str (map_of kvs ''principle_id''),
                 name = the_str (map_of kvs ''name''),
                 description = the_str (map_of kvs ''description''),
                 keyConcepts = the_strs (map_of kvs ''keyConcepts''),
                 designGuidelines = the_strs (map_of kvs ''designGuidelines''),
                 commonPitfalls = the_strs (map_of kvs ''commonPitfalls''),
                 bestPractices = the_strs (map_of kvs ''bestPractices''),
                 relevantTechnologies = the_strs (map_of kvs ''relevantTechnologies''),
                 notes' = the_str (map_of kvs ''notes'') \<rparr>"
    by (simp add: FrontendPrincipleSchema_if)
  from assms(1) have s:
    "map_of kvs ''principle_id'' = Some (JStr (the_str (map_of kvs ''principle_id'')))"
    "map_of kvs ''name'' = Some (JStr (the_str (map_of kvs ''name'')))"
    "map_of kvs ''description'' = Some (JStr (the_str (map_of kvs ''description'')))"
    "map_of kvs ''notes'' = Some (JStr (the_str (map_of kvs ''notes'')))"
    by (simp_all add: is_str_eq[symmetric])
  from assms(1) have l:
    "map_of kvs ''keyConcepts'' = Some (strs (the_strs (map_of kvs ''keyConcepts'')))"
    "map_of kvs ''designGuidelines'' = Some (strs (the_strs (map_of kvs ''designGuidelines'')))"
    "map_of kvs ''commonPitfalls'' = Some (strs (the_strs (map_of kvs ''commonPitfalls'')))"
    "map_of kvs ''bestPractices'' = Some (strs (the_strs (map_of kvs ''bestPractices'')))"
    "map_of kvs ''relevantTechnologies'' = Some (strs (the_strs (map_of kvs ''relevantTechnologies'')))"
    by (simp_all add: is_strs_eq[symmetric])
  show "map_of (object_of r) k = (map_of kvs |` set schema_keys) k"
    using s l by (simp add: r object_of_def schema_keys_def restrict_map_def)
qed

text \<open>
  Claim C6, as the code has it. The schema rejects every candidate that is not an
  object, that misses a required field, or that holds a value of the wrong type in one
  (a number is not turned into a string). It accepts every object in which all nine
  fields are present and correctly typed, and returns the nine fields with the
  candidate's values unchanged; members of the candidate under any other key are not
  part of the result.
\<close>

theorem FrontendPrincipleSchema_complete:
  "(\<not> conforms c \<longrightarrow> FrontendPrincipleSchema c = Inl ZodError) \<and>
   (conforms c \<longrightarrow>
      (\<exists>r. FrontendPrincipleSchema c = Inr r \<and>
           map_of (object_of r) = members c |` set schema_keys))"
proof (cases c)
  case (JObj kvs)
  show ?thesis
  proof (cases "conforms (JObj kvs)")
    case True
    then obtain r where r: "FrontendPrincipleSchema (JObj kvs) = Inr r"
      by (simp only: FrontendPrincipleSchema_if if_True)
    with True object_of_members[OF True r] JObj show ?thesis
      by (simp del: conforms.simps)
  next
    case False
    then have "FrontendPrincipleSchema (JObj kvs) = Inl ZodError"
      by (simp only: FrontendPrincipleSchema_if if_False)
    with False JObj show ?thesis
      by (simp del: conforms.simps)
  qed
qed (simp_all add: FrontendPrincipleSchema.simps)

text \<open>
  The theorem at a record whose \<^verbatim>\<open>name\<close> is the number 42, at a record without
  \<^verbatim>\<open>notes\<close>, and at a well-formed record.
\<close>

theorem FrontendPrincipleSchema_complete_witness:
  "FrontendPrincipleSchema (JObj (obj_set ''name'' (JNum 42) (object_of rec_a))) = Inl ZodError \<and>
   FrontendPrincipleSchema (JObj (filter (\<lambda>(k, v). k \<noteq> ''notes'') (object_of rec_a))) = Inl ZodError \<and>
   (\<exists>r. FrontendPrincipleSchema (JObj (object_of rec_a)) = Inr r \<and>
        map_of (object_of r) = map_of (object_of rec_a) |` set schema_keys)"
proof -
  have 1: "\<not> conforms (JObj (obj_set ''name'' (JNum 42) (object_of rec_a)))"
    by (simp add: object_of_def)
  have 2: "\<not> conforms (JObj (filter (\<lambda>(k, v). k \<noteq> ''notes'') (object_of rec_a)))"
    by (simp add: object_of_def)
  have 3: "conforms (JObj (object_of rec_a))"
    by (simp add: object_of_def strs_def rec_a_def)
  from FrontendPrincipleSchema_complete[of "JObj (obj_set ''name'' (JNum 42) (object_of rec_a))"]
    FrontendPrincipleSchema_complete[of "JObj (filter (\<lambda>(k, v). k \<noteq> ''notes'') (object_of rec_a))"]
    FrontendPrincipleSchema_complete[of "JObj (object_of rec_a)"] 1 2 3
  show ?thesis by simp
qed

text \<open>
  Claim C6 as stated fails: a candidate with all nine fields well typed and one more
  member, \<^verbatim>\<open>extra: 42\<close>, is accepted, and the result has no member \<^verbatim>\<open>extra\<close>: the
  candidate is not returned unchanged.
\<close>

theorem FrontendPrincipleSchema_drops_unknown_key:
  "conforms (JObj (object_of rec_a @ [(''extra'', JNum 42)])) \<and>
   FrontendPrincipleSchema (JObj (object_of rec_a @ [(''extra'', JNum 42)])) = Inr rec_a \<and>
   map_of (object_of rec_a @ [(''extra'', JNum 42)]) ''extra'' = Some (JNum 42) \<and>
   map_of (object_of rec_a) ''extra'' = None"
proof -
  have 1: "conforms (JObj (object_of rec_a @ [(''extra'', JNum 42)]))"
    by (simp add: object_of_def strs_def rec_a_def)
  have 2: "FrontendPrincipleSchema (JObj (object_of rec_a @ [(''extra'', JNum 42)])) = Inr rec_a"
    by (simp add: FrontendPrincipleSchema.simps field_def bindE_def object_of_def strs_def rec_a_def)
  have 3: "map_of (object_of rec_a @ [(''extra'', JNum 42)]) ''extra'' = Some (JNum 42)"
    by (simp add: object_of_def)
  have 4: "map_of (object_of rec_a) ''extra'' = None"
    by (simp add: object_of_def)
  from 1 2 3 4 show ?thesis by blast
qed

section \<open>The chat component\<close>

lemma trim_chat0: "trim (input' chat0) = ''what is a grid?''"
  by (simp add: trim_def chat0_def utf8_chars_def is_space_def white_space_def)

lemma trim_chat_blank: "trim (input' chat_blank) = []"
  by (simp add: trim_def chat_blank_def chat0_def utf8_chars_def is_space_def white_space_def)

text \<open>
  When \<^verbatim>\<open>fetch\<close> rejects, or the body of the response is not JSON, the handler appends
  the user's message and one fallback message to the transcript it held, empties the
  input, ends the loading state and keeps the thread.
\<close>

lemma sendMessage_fetch_fails:
  assumes "trim (input' st) \<noteq> []"
    and "fetch env (url env (threadId st)) (trim (input' st)) = Rejected \<or>
         (\<exists>status. fetch env (url env (threadId st)) (trim (input' st)) = Response status None)"
  shows "sendMessage env st =
           Inr (st\<lparr>messages := messages st
                      @ [\<lparr>sender = User, text' = Some (JStr (trim (input' st)))\<rparr>,
                         \<lparr>sender = Agent, text' = Some (JStr ''Sorry, there was an error.'')\<rparr>],
                    input' := [], isLoading := False\<rparr>)"
  using assms by (auto simp: sendMessage_def on_error_def Let_def)

text \<open>
  Claim C8, which the code breaks for a response with an error status and a JSON body:
  \<^verbatim>\<open>fetch\<close> resolves, the status is never looked at, and the handler appends an agent
  message whose text is \<^verbatim>\<open>data.response\<close>, here \<^verbatim>\<open>undefined\<close>. No fallback message
  enters the transcript.
\<close>

theorem sendMessage_status_500:
  "fetch env_500 (url env_500 (threadId chat0)) (trim (input' chat0)) =
     Response 500 (Some (JObj [(''error'', JStr ''Internal server error'')])) \<and>
   sendMessage env_500 chat0 =
     Inr (chat0\<lparr>messages :=
                  messages chat0 @ [\<lparr>sender = User, text' = Some (JStr ''what is a grid?'')\<rparr>,
                                    \<lparr>sender = Agent, text' = None\<rparr>],
                input' := []\<rparr>) \<and>
   \<lparr>sender = Agent, text' = Some (JStr ''Sorry, there was an error.'')\<rparr>
     \<notin> set (messages chat0 @ [\<lparr>sender = User, text' = Some (JStr ''what is a grid?'')\<rparr>,
                              \<lparr>sender = Agent, text' = None\<rparr>])"
proof -
  have f: "fetch env_500 (url env_500 (threadId chat0)) (trim (input' chat0)) =
     Response 500 (Some (JObj [(''error'', JStr ''Internal server error'')]))"
    by (simp add: env_500_def)
  have t: "threadId chat0 = Some (JStr ''t1'')" "isLoading chat0 = False"
    by (simp_all add: chat0_def)
  have m: "sendMessage env_500 chat0 =
     Inr (chat0\<lparr>messages :=
                  messages chat0 @ [\<lparr>sender = User, text' = Some (JStr ''what is a grid?'')\<rparr>,
                                    \<lparr>sender = Agent, text' = None\<rparr>],
                input' := []\<rparr>)"
    using f by (simp add: sendMessage_def trim_chat0 t on_data_def agent_update_def bindE_def Let_def)
  have "\<lparr>sender = Agent, text' = Some (JStr ''Sorry, there was an error.'')\<rparr>
     \<notin> set (messages chat0 @ [\<lparr>sender = User, text' = Some (JStr ''what is a grid?'')\<rparr>,
                              \<lparr>sender = Agent, text' = None\<rparr>])"
    by (simp add: chat0_def)
  with f m show ?thesis by blast
qed

text \<open>The same session when the network request fails: the fallback message is appended.\<close>

lemma sendMessage_offline:
  "sendMessage env_offline chat0 =
     Inr (chat0\<lparr>messages :=
                  messages chat0 @ [\<lparr>sender = User, text' = Some (JStr ''what is a grid?'')\<rparr>,
                                    \<lparr>sender = Agent, text' = Some (JStr ''Sorry, there was an error.'')\<rparr>],
                input' := []\<rparr>)"
proof -
  have n: "trim (input' chat0) \<noteq> []"
    by (simp add: trim_chat0)
  have r: "fetch env_offline (url env_offline (threadId chat0)) (trim (input' chat0)) = Rejected \<or>
      (\<exists>status. fetch env_offline (url env_offline (threadId chat0)) (trim (input' chat0)) =
         Response status None)"
    by (simp add: env_offline_def env_500_def)
  have "isLoading chat0 = False"
    by (simp add: chat0_def)
  with sendMessage_fetch_fails[OF n r] show ?thesis
    by (simp add: trim_chat0)
qed

text \<open>
  A body \<^verbatim>\<open>null\<close> in a session with a thread: nothing in the \<^verbatim>\<open>try\<close> block reads a
  property of the body, and the updater throws when the component renders. In a session
  without a thread the read of \<^verbatim>\<open>data.threadId\<close> throws inside the \<^verbatim>\<open>try\<close> block and the
  fallback message is appended.
\<close>

lemma sendMessage_null_body: "sendMessage env_null chat0 = Inl TypeError"
  by (simp add: sendMessage_def trim_chat0 env_null_def env_500_def on_data_def agent_update_def
      bindE_def Let_def)
     (simp add: chat0_def)

lemma sendMessage_null_body_no_thread:
  "sendMessage env_null (chat0\<lparr>threadId := None\<rparr>) =
     Inr (chat0\<lparr>messages :=
                  messages chat0 @ [\<lparr>sender = User, text' = Some (JStr ''what is a grid?'')\<rparr>,
                                    \<lparr>sender = Agent, text' = Some (JStr ''Sorry, there was an error.'')\<rparr>],
                input' := [], threadId := None\<rparr>)"
proof -
  have "trim (input' (chat0\<lparr>threadId := None\<rparr>)) = ''what is a grid?''"
    using trim_chat0 by simp
  moreover have "isLoading chat0 = False"
    by (simp add: chat0_def)
  ultimately show ?thesis
    by (simp add: sendMessage_def env_null_def env_500_def on_data_def on_error_def
        bindE_def Let_def)
qed

text \<open>An input of no-break spaces is empty after \<^verbatim>\<open>trim\<close>: the handler returns at once.\<close>

lemma sendMessage_blank_input: "sendMessage env chat_blank = Inr chat_blank"
  by (simp add: sendMessage_def trim_chat_blank)

end
